theory Spec2Isabelle
  imports Complex_Main
begin

text \<open>
  A model of the HTTP mirror server of \<^verbatim>\<open>server/main.ts\<close> (the router, \<open>parseHeaders\<close>,
  \<open>parseForm\<close> and the four routes) and of the Gauge step \<open>navigateToUrl\<close> of
  \<^verbatim>\<open>specs/steps/form.ts\<close>, followed by the properties the specification states about them.
  Functions of the repository keep their names. What the JavaScript language does on an
  object or a string is written out; \<^verbatim>\<open>querystring.parse\<close> is modelled after its
  documentation, with its percent decoder as a parameter; the other library calls are
  parameters too.
\<close>

section \<open>JavaScript strings\<close>

text \<open>
  Strings are HOL strings. The server only inspects ASCII text (header names, content
  types, the separators of a form body), so a character stands for one code unit.
\<close>

text \<open>\<^verbatim>\<open>s.startsWith(p)\<close>\<close>

fun startsWith :: "string \<Rightarrow> string \<Rightarrow> bool" where
  "startsWith s [] = True"
| "startsWith [] (p # ps) = False"
| "startsWith (c # cs) (p # ps) = (c = p \<and> startsWith cs ps)"

text \<open>\<^verbatim>\<open>s.includes(sub)\<close>: \<open>sub\<close> occurs somewhere in \<open>s\<close>.\<close>

fun str_includes :: "string \<Rightarrow> string \<Rightarrow> bool" where
  "str_includes [] sub = (sub = [])"
| "str_includes (c # cs) sub = (startsWith (c # cs) sub \<or> str_includes cs sub)"

text \<open>\<^verbatim>\<open>s.replace(pat, rep)\<close> with a string pattern: only the first occurrence is replaced.\<close>

fun replace_first :: "string \<Rightarrow> string \<Rightarrow> string \<Rightarrow> string" where
  "replace_first [] pat rep = (if pat = [] then rep else [])"
| "replace_first (c # cs) pat rep =
     (if startsWith (c # cs) pat then rep @ drop (length pat) (c # cs)
      else c # replace_first cs pat rep)"

text \<open>
  \<^verbatim>\<open>c.toUpperCase()\<close> on one ASCII character: the letters \<^verbatim>\<open>a\<close> to \<^verbatim>\<open>z\<close> (codes 97 to 122)
  move down by 32, every other character stays.
\<close>

definition toUpperCase_char :: "char \<Rightarrow> char" where
  "toUpperCase_char c =
     (if 97 \<le> (of_char c :: nat) \<and> (of_char c :: nat) \<le> 122
      then char_of ((of_char c :: nat) - 32)
      else c)"

definition is_upper :: "char \<Rightarrow> bool" where
  "is_upper c \<longleftrightarrow> 65 \<le> (of_char c :: nat) \<and> (of_char c :: nat) \<le> 90"

text \<open>
  \<^verbatim>\<open>s.split(c)\<close> for a one-character separator, as a scan from left to right: \<open>cur\<close> is
  the piece read so far. The empty string gives one empty piece.
\<close>

fun split_from :: "char \<Rightarrow> string \<Rightarrow> string \<Rightarrow> string list" where
  "split_from sep cur [] = [cur]"
| "split_from sep cur (c # cs) =
     (if c = sep then cur # split_from sep [] cs else split_from sep (cur @ [c]) cs)"

definition split_on :: "char \<Rightarrow> string \<Rightarrow> string list" where
  "split_on sep s = split_from sep [] s"

text \<open>A value of the TypeScript type \<^verbatim>\<open>string | string[]\<close>.\<close>

datatype string_or_array = Str string | Arr "string list"

text \<open>\<^verbatim>\<open>Array.isArray(value) ? value : [value]\<close>\<close>

fun to_array :: "string_or_array \<Rightarrow> string list" where
  "to_array (Arr vs) = vs"
| "to_array (Str v) = [v]"

section \<open>JavaScript objects used as dictionaries\<close>

text \<open>
  An object is the list of its own enumerable string-keyed properties, in creation order,
  each key once. \<open>get_own\<close> reads an own property (\<open>None\<close> is \<^verbatim>\<open>undefined\<close>).
  JavaScript lists keys that are array indices before the others; the model keeps
  creation order for all keys, and no statement below depends on the order of the keys.
\<close>

type_synonym 'v obj = "(string \<times> 'v) list"

definition get_own :: "'v obj \<Rightarrow> string \<Rightarrow> 'v option" where
  "get_own ob k = map_of ob k"

text \<open>
  Defining a data property: an existing property keeps its place and gets the new value,
  a new one is added last. This is what \<^verbatim>\<open>Object.fromEntries\<close> does for every entry, and
  what an assignment does on an object without a prototype.
\<close>

primrec define_own :: "string \<Rightarrow> 'v \<Rightarrow> 'v obj \<Rightarrow> 'v obj" where
  "define_own k v [] = [(k, v)]"
| "define_own k v (p # ps) = (if fst p = k then (k, v) # ps else p # define_own k v ps)"

text \<open>
  The assignment \<^verbatim>\<open>result[key] = array\<close> on an object literal \<^verbatim>\<open>{}\<close>. The literal inherits
  from \<^verbatim>\<open>Object.prototype\<close>, whose accessor \<^verbatim>\<open>__proto__\<close> takes the assignment of an
  object value: the prototype of \<^verbatim>\<open>result\<close> changes and no own property is created. Every
  other key defines an own data property.
\<close>

definition assign :: "string \<Rightarrow> 'v \<Rightarrow> 'v obj \<Rightarrow> 'v obj" where
  "assign k v ob = (if k = ''__proto__'' then ob else define_own k v ob)"

section \<open>The runtime the server runs on\<close>

text \<open>
  What the handlers read of a \<^verbatim>\<open>URL\<close> object: \<^verbatim>\<open>pathname\<close>, the entries of
  \<^verbatim>\<open>searchParams\<close> in the order of the query string, and \<^verbatim>\<open>href\<close>.
\<close>

record url =
  pathname :: string
  searchParams :: "(string \<times> string) list"
  href :: string

datatype json =
  JNull
  | JBool bool
  | JNumber real
  | JString string
  | JArray "json list"
  | JObject "(string \<times> json) list"

text \<open>
  The library calls whose code is not part of the repository are parameters of the model:
  \<^verbatim>\<open>new URL(input, base)\<close> and \<^verbatim>\<open>JSON.parse(text)\<close> (\<open>None\<close> when they throw),
  \<^verbatim>\<open>querystring.unescape(text)\<close> (the percent decoder, which reads escapes as UTF-8),
  \<^verbatim>\<open>fs.readFile(path)\<close> (\<open>None\<close> when it reports an error), \<^verbatim>\<open>process.env\<close>, the clock and
  \<^verbatim>\<open>process.uptime()\<close>.
\<close>

record platform =
  URL_new :: "string \<Rightarrow> string \<Rightarrow> url option"
  JSON_parse :: "string \<Rightarrow> json option"
  querystring_unescape :: "string \<Rightarrow> string"
  readFile :: "string \<Rightarrow> string option"
  process_env :: "string \<Rightarrow> string option"
  toISOString_now :: string
  process_uptime :: real

datatype error = TypeError string | Error string

section \<open>The form decoder of the runtime\<close>

text \<open>
  \<^verbatim>\<open>querystring.parse(str)\<close> of Node.js with its default arguments: the separators
  \<^verbatim>\<open>&\<close> and \<^verbatim>\<open>=\<close>, at most \<^verbatim>\<open>maxKeys = 1000\<close> segments read, \<^verbatim>\<open>+\<close> read as a space and
  percent escapes decoded. The result has no prototype; a key that occurs once holds a
  string, a key that occurs again holds the array of its values.
\<close>

definition hex_digit :: "char \<Rightarrow> nat option" where
  "hex_digit c =
     map_of (zip ''0123456789abcdefABCDEF''
       [0, 1, 2, 3, 4, 5, 6, 7, 8, 9, 10, 11, 12, 13, 14, 15, 10, 11, 12, 13, 14, 15]) c"

text \<open>A text holds an escape when a \<^verbatim>\<open>%\<close> is followed by two hexadecimal digits.\<close>

fun has_escape :: "string \<Rightarrow> bool" where
  "has_escape (c # h # l # rest) =
     (c = CHR ''%'' \<and> hex_digit h \<noteq> None \<and> hex_digit l \<noteq> None \<or> has_escape (h # l # rest))"
| "has_escape s = False"

text \<open>
  A key or a value: every \<^verbatim>\<open>+\<close> becomes a space; the result goes through the percent
  decoder of the runtime when it holds an escape, and is kept as it is otherwise.
\<close>

definition qs_decode :: "platform \<Rightarrow> string \<Rightarrow> string" where
  "qs_decode P s =
     (let spaced = map (\<lambda>c. if c = CHR ''+'' then CHR '' '' else c) s
      in if has_escape spaced then querystring_unescape P spaced else spaced)"

text \<open>A segment is cut at its first \<^verbatim>\<open>=\<close>; without one the value is empty.\<close>

definition split_pair :: "string \<Rightarrow> string \<times> string" where
  "split_pair seg =
     (takeWhile (\<lambda>c. c \<noteq> CHR ''='') seg, drop 1 (dropWhile (\<lambda>c. c \<noteq> CHR ''='') seg))"

text \<open>Empty segments (as in \<^verbatim>\<open>a=1&&b=2\<close>) add nothing.\<close>

definition qs_pairs :: "platform \<Rightarrow> string list \<Rightarrow> (string \<times> string) list" where
  "qs_pairs P segs =
     map (\<lambda>seg. (qs_decode P (fst (split_pair seg)), qs_decode P (snd (split_pair seg))))
       (filter (\<lambda>seg. seg \<noteq> []) segs)"

fun addKeyValue :: "string \<times> string \<Rightarrow> string_or_array obj \<Rightarrow> string_or_array obj" where
  "addKeyValue (key, val) ob =
     (case get_own ob key of
        None \<Rightarrow> define_own key (Str val) ob
      | Some (Str cur) \<Rightarrow> define_own key (Arr [cur, val]) ob
      | Some (Arr cur) \<Rightarrow> define_own key (Arr (cur @ [val])) ob)"

text \<open>The values a key holds in a decoded object, as a list.\<close>

definition own_values :: "string_or_array obj \<Rightarrow> string \<Rightarrow> string list" where
  "own_values ob k = (case get_own ob k of None \<Rightarrow> [] | Some v \<Rightarrow> to_array v)"

definition maxKeys :: nat where
  "maxKeys = 1000"

text \<open>The pairs the decoder reads from a text, and all the pairs the text holds.\<close>

definition read_pairs :: "platform \<Rightarrow> string \<Rightarrow> (string \<times> string) list" where
  "read_pairs P qs = qs_pairs P (take maxKeys (split_on CHR ''&'' qs))"

definition submitted_pairs :: "platform \<Rightarrow> string \<Rightarrow> (string \<times> string) list" where
  "submitted_pairs P qs = qs_pairs P (split_on CHR ''&'' qs)"

text \<open>The values of the entries with a given key, in the order of the entries.\<close>

definition values_of :: "string \<Rightarrow> (string \<times> 'v) list \<Rightarrow> 'v list" where
  "values_of key entries = map snd (filter (\<lambda>entry. fst entry = key) entries)"

definition querystring_parse :: "platform \<Rightarrow> string \<Rightarrow> string_or_array obj" where
  "querystring_parse P qs =
     (if qs = [] then []
      else fold addKeyValue (read_pairs P qs) [])"

section \<open>server/main.ts: parseForm\<close>

text \<open>
  The loop over \<^verbatim>\<open>Object.entries(parsed)\<close>. A parsed value is never \<^verbatim>\<open>undefined\<close>, so
  every entry is assigned.
\<close>

definition parseForm :: "platform \<Rightarrow> string \<Rightarrow> (string list) obj" where
  "parseForm P body =
     fold (\<lambda>entry result. assign (fst entry) (to_array (snd entry)) result)
       (querystring_parse P body) []"

section \<open>server/main.ts: parseHeaders\<close>

text \<open>
  \<^verbatim>\<open>http.IncomingHttpHeaders\<close> as \<^verbatim>\<open>Object.entries\<close> lists it: each own key with a string, an
  array of strings, or \<^verbatim>\<open>undefined\<close> (\<open>None\<close>).
\<close>

type_synonym incoming_headers = "(string \<times> string_or_array option) list"

text \<open>
  Node.js builds \<^verbatim>\<open>req.headers\<close> from the header lines of the request: every name is
  lower-cased and each name is one key. The object is a literal, on which the assignment
  of a string to \<^verbatim>\<open>__proto__\<close> creates no key.
\<close>

definition lower_cased :: "string \<Rightarrow> bool" where
  "lower_cased name \<longleftrightarrow> list_all (\<lambda>c. \<not> is_upper c) name"

definition node_headers :: "incoming_headers \<Rightarrow> bool" where
  "node_headers hs \<longleftrightarrow>
     distinct (map fst hs) \<and>
     list_all (\<lambda>name. lower_cased name \<and> name \<noteq> ''__proto__'') (map fst hs)"

text \<open>\<^verbatim>\<open>headers[name]\<close>: a missing key and a key holding \<^verbatim>\<open>undefined\<close> read the same.\<close>

definition header :: "incoming_headers \<Rightarrow> string \<Rightarrow> string_or_array option" where
  "header hs name = (case get_own hs name of Some (Some v) \<Rightarrow> Some v | _ \<Rightarrow> None)"

text \<open>\<^verbatim>\<open>key.charAt(0).toUpperCase() + key.slice(1)\<close>\<close>

definition capitalize :: "string \<Rightarrow> string" where
  "capitalize key = map toUpperCase_char (take 1 key) @ drop 1 key"

fun parseHeaders_step ::
  "string \<times> string_or_array option \<Rightarrow> (string list) obj \<Rightarrow> (string list) obj" where
  "parseHeaders_step (key, None) result = result"
| "parseHeaders_step (key, Some val) result = assign (capitalize key) (to_array val) result"

definition parseHeaders :: "incoming_headers \<Rightarrow> (string list) obj" where
  "parseHeaders hs = fold parseHeaders_step hs []"

section \<open>Requests and responses\<close>

text \<open>
  An \<^verbatim>\<open>http.IncomingMessage\<close> whose body has arrived: \<open>chunks\<close> are its \<^verbatim>\<open>data\<close> events, in
  order, before \<^verbatim>\<open>end\<close>.
\<close>

record request =
  req_url :: "string option"
  req_method :: "string option"
  req_headers :: incoming_headers
  remoteAddress :: "string option"
  chunks :: "string list"

text \<open>The object the \<^verbatim>\<open>/post\<close> handler builds and sends back.\<close>

record mirror =
  args :: "string obj"
  headers :: "(string list) obj"
  mirror_method :: "string option"
  origin :: string
  mirror_url :: string
  data :: "string option"
  files :: "unit obj"
  form :: "(string list) obj"
  json :: json

record health =
  status :: string
  timestamp :: string
  uptime :: real
  environment :: string

text \<open>
  What is handed to \<^verbatim>\<open>res.end\<close>: a text, the bytes of a file, or
  \<^verbatim>\<open>JSON.stringify(x, null, 2)\<close> of an object \<open>x\<close>, kept as the object itself.
\<close>

datatype payload =
  Text string
  | FileData string
  | Stringify_mirror mirror
  | Stringify_health health

text \<open>
  A \<^verbatim>\<open>http.ServerResponse\<close> is the list of the calls made on it so far, in order. A
  handler gets the request, the response and, from \<open>handlePost\<close> only, the body; it returns
  the response with its calls added, or the error it throws.
\<close>

datatype res_call =
  SetHeader string string
  | WriteHead nat "(string \<times> string) list"
  | End payload

type_synonym handler =
  "request \<Rightarrow> res_call list \<Rightarrow> string option \<Rightarrow> error + res_call list"

section \<open>server/main.ts: Router\<close>

record route =
  route_method :: string
  route_path :: string
  handler :: handler

definition get :: "string \<Rightarrow> handler \<Rightarrow> route list \<Rightarrow> route list" where
  "get path h routes = routes @ [\<lparr>route_method = ''GET'', route_path = path, handler = h\<rparr>]"

definition post :: "string \<Rightarrow> handler \<Rightarrow> route list \<Rightarrow> route list" where
  "post path h routes = routes @ [\<lparr>route_method = ''POST'', route_path = path, handler = h\<rparr>]"

text \<open>
  \<^verbatim>\<open>a.join(sep)\<close>; with a comma it is how an array prints inside a template literal.
\<close>

fun join :: "string \<Rightarrow> string list \<Rightarrow> string" where
  "join sep [] = []"
| "join sep [x] = x"
| "join sep (x # y # ys) = x @ sep @ join sep (y # ys)"

text \<open>\<^verbatim>\<open>`http://${req.headers.host}`\<close>\<close>

definition base_url :: "request \<Rightarrow> string" where
  "base_url req =
     ''http://'' @
     (case header (req_headers req) ''host'' of
        None \<Rightarrow> ''undefined''
      | Some (Str s) \<Rightarrow> s
      | Some (Arr a) \<Rightarrow> join '','' a)"

text \<open>\<^verbatim>\<open>req.url || ""\<close>\<close>

definition url_or_empty :: "request \<Rightarrow> string" where
  "url_or_empty req = (case req_url req of None \<Rightarrow> [] | Some u \<Rightarrow> u)"

text \<open>
  \<open>handlePost\<close> appends every chunk to \<open>body\<close> and calls the handler at \<^verbatim>\<open>end\<close>.
\<close>

definition body_of :: "request \<Rightarrow> string" where
  "body_of req = foldl (\<lambda>body chunk. body @ chunk) [] (chunks req)"

definition handlePost :: "request \<Rightarrow> res_call list \<Rightarrow> handler \<Rightarrow> error + res_call list" where
  "handlePost req res h = h req res (Some (body_of req))"

text \<open>The first route with the request's method and path, as \<^verbatim>\<open>Array.prototype.find\<close>.\<close>

definition find_route :: "route list \<Rightarrow> string option \<Rightarrow> string \<Rightarrow> route option" where
  "find_route routes meth path =
     find (\<lambda>r. Some (route_method r) = meth \<and> route_path r = path) routes"

definition handle ::
  "platform \<Rightarrow> route list \<Rightarrow> request \<Rightarrow> res_call list \<Rightarrow> error + res_call list" where
  "handle P routes req res =
     (case URL_new P (url_or_empty req) (base_url req) of
        None \<Rightarrow> Inl (TypeError ''Invalid URL'')
      | Some parsedUrl \<Rightarrow>
          (case find_route routes (req_method req) (pathname parsedUrl) of
             Some r \<Rightarrow>
               if req_method req = Some ''POST'' then handlePost req res (handler r)
               else handler r req res None
           | None \<Rightarrow>
               Inr (res @ [WriteHead 404 [(''Content-Type'', ''text/plain'')],
                           End (Text ''Not Found'')])))"

section \<open>server/main.ts: the routes\<close>

text \<open>\<^verbatim>\<open>path.join\<close> of plain names, on a POSIX system.\<close>

definition path_join :: "string list \<Rightarrow> string" where
  "path_join parts = join ''/'' parts"

text \<open>
  \<^verbatim>\<open>GET /forms/post\<close>. The callback of \<^verbatim>\<open>fs.readFile\<close> runs once, with an error or with
  the data.
\<close>

definition formsPostHandler :: "platform \<Rightarrow> handler" where
  "formsPostHandler P req res body =
     (let res1 = res @ [SetHeader ''Content-Type'' ''text/html''];
          filePath = path_join [''server'', ''public'', ''form.html'']
      in case readFile P filePath of
           None \<Rightarrow>
             Inr (res1 @ [WriteHead 404 [(''Content-Type'', ''text/plain'')],
                          End (Text ''File not found'')])
         | Some file \<Rightarrow>
             Inr (res1 @ [WriteHead 200 [(''Content-Type'', ''text/html'')],
                          End (FileData file)]))"

text \<open>
  \<^verbatim>\<open>contentType.includes(s)\<close>: a substring test on a string. (An array, which the type
  of the \<^verbatim>\<open>content-type\<close> header excludes, would test membership.)
\<close>

fun value_includes :: "string_or_array \<Rightarrow> string \<Rightarrow> bool" where
  "value_includes (Str s) x = str_includes s x"
| "value_includes (Arr a) x = List.member a x"

text \<open>\<^verbatim>\<open>req.headers["content-type"] || ""\<close>\<close>

definition contentType :: "request \<Rightarrow> string_or_array" where
  "contentType req =
     (case header (req_headers req) ''content-type'' of None \<Rightarrow> Str [] | Some v \<Rightarrow> v)"

text \<open>\<^verbatim>\<open>Object.fromEntries(entries)\<close>: every entry defines its key, in order.\<close>

definition Object_fromEntries :: "(string \<times> string) list \<Rightarrow> string obj" where
  "Object_fromEntries entries =
     fold (\<lambda>entry ob. define_own (fst entry) (snd entry) ob) entries []"

text \<open>
  The \<^verbatim>\<open>try\<close> block around \<^verbatim>\<open>JSON.parse(body)\<close>: a thrown error leaves \<^verbatim>\<open>json\<close> as it
  was, \<^verbatim>\<open>null\<close>. A missing body is read as the text \<^verbatim>\<open>undefined\<close>.
\<close>

definition try_JSON_parse :: "platform \<Rightarrow> string option \<Rightarrow> json" where
  "try_JSON_parse P body =
     (case JSON_parse P (case body of None \<Rightarrow> ''undefined'' | Some b \<Rightarrow> b) of
        None \<Rightarrow> JNull
      | Some v \<Rightarrow> v)"

text \<open>
  \<^verbatim>\<open>json\<close> starts as \<^verbatim>\<open>null\<close> and \<^verbatim>\<open>form\<close> as \<^verbatim>\<open>{}\<close>; the \<^verbatim>\<open>if\<close> / \<^verbatim>\<open>else if\<close> on the
  content type sets at most one of them. The result is the pair (\<^verbatim>\<open>json\<close>, \<^verbatim>\<open>form\<close>).
  \<open>parseForm\<close> of a missing body gives \<^verbatim>\<open>{}\<close>.
\<close>

definition json_and_form :: "platform \<Rightarrow> request \<Rightarrow> string option \<Rightarrow> json \<times> (string list) obj" where
  "json_and_form P req body =
     (if value_includes (contentType req) ''application/json'' then
        (try_JSON_parse P body, [])
      else if value_includes (contentType req) ''application/x-www-form-urlencoded'' then
        (JNull, case body of None \<Rightarrow> [] | Some b \<Rightarrow> parseForm P b)
      else (JNull, []))"

text \<open>The \<^verbatim>\<open>response\<close> object of \<^verbatim>\<open>POST /post\<close>.\<close>

definition mirror_response :: "platform \<Rightarrow> url \<Rightarrow> request \<Rightarrow> string option \<Rightarrow> mirror" where
  "mirror_response P parsedUrl req body =
     \<lparr>args = Object_fromEntries (searchParams parsedUrl),
      headers = parseHeaders (req_headers req),
      mirror_method = req_method req,
      origin = (case remoteAddress req of
                  None \<Rightarrow> ''unknown''
                | Some a \<Rightarrow> if a = [] then ''unknown'' else a),
      mirror_url = href parsedUrl,
      data = body,
      files = [],
      form = snd (json_and_form P req body),
      json = fst (json_and_form P req body)\<rparr>"

definition postHandler :: "platform \<Rightarrow> handler" where
  "postHandler P req res body =
     (case URL_new P (url_or_empty req) (base_url req) of
        None \<Rightarrow> Inl (TypeError ''Invalid URL'')
      | Some parsedUrl \<Rightarrow>
          Inr (res @ [WriteHead 200 [(''Content-Type'', ''application/json'')],
                      End (Stringify_mirror (mirror_response P parsedUrl req body))]))"

definition healthHandler :: "platform \<Rightarrow> handler" where
  "healthHandler P req res body =
     Inr (res @ [WriteHead 200 [(''Content-Type'', ''application/json'')],
                 End (Stringify_health
                   \<lparr>status = ''healthy'',
                    timestamp = toISOString_now P,
                    uptime = process_uptime P,
                    environment = (case process_env P ''NODE_ENV'' of
                                     None \<Rightarrow> ''development''
                                   | Some e \<Rightarrow> if e = [] then ''development'' else e)\<rparr>)])"

definition rootHandler :: handler where
  "rootHandler req res body =
     Inr (res @ [WriteHead 200 [(''Content-Type'', ''text/html'')], End (Text ''Hello World!'')])"

text \<open>The table of the exported \<^verbatim>\<open>router\<close>, in the order the module registers it.\<close>

definition router_routes :: "platform \<Rightarrow> route list" where
  "router_routes P =
     get ''/'' rootHandler
       (get ''/health'' (healthHandler P)
         (post ''/post'' (postHandler P)
           (get ''/forms/post'' (formsPostHandler P) [])))"

text \<open>
  A request that the router hands to the \<^verbatim>\<open>/post\<close> handler: its URL parses to \<open>u\<close> with
  the path \<^verbatim>\<open>/post\<close>, and its method is \<^verbatim>\<open>POST\<close>.
\<close>

definition POST_post :: "platform \<Rightarrow> request \<Rightarrow> url \<Rightarrow> bool" where
  "POST_post P req u \<longleftrightarrow>
     URL_new P (url_or_empty req) (base_url req) = Some u \<and>
     pathname u = ''/post'' \<and>
     req_method req = Some ''POST''"

text \<open>The object sent in reply to such a request.\<close>

definition sent_mirror :: "platform \<Rightarrow> url \<Rightarrow> request \<Rightarrow> mirror" where
  "sent_mirror P u req = mirror_response P u req (Some (body_of req))"

section \<open>specs/steps/form.ts: navigateToUrl\<close>

text \<open>
  What \<^verbatim>\<open>process.env[name]\<close> gives: the string of a variable that is set; for a name that
  is not set, the property of that name that the object inherits (such as \<^verbatim>\<open>toString\<close>
  or \<^verbatim>\<open>constructor\<close>), if there is one; \<^verbatim>\<open>undefined\<close> (\<open>None\<close>) otherwise.
\<close>

datatype js_value = JsString string | Inherited string

record process_env_object =
  variables :: "string \<Rightarrow> string option"
  inherits :: "string \<Rightarrow> bool"

definition env_get :: "process_env_object \<Rightarrow> string \<Rightarrow> js_value option" where
  "env_get env name =
     (case variables env name of
        Some v \<Rightarrow> Some (JsString v)
      | None \<Rightarrow> if inherits env name then Some (Inherited name) else None)"

text \<open>
  \<^verbatim>\<open>!envUrl\<close> holds for \<^verbatim>\<open>undefined\<close> and for a falsy value: the empty string is falsy, an
  inherited property (a function or an object) is not.
\<close>

fun falsy :: "js_value \<Rightarrow> bool" where
  "falsy (JsString v) = (v = [])"
| "falsy (Inherited name) = False"

text \<open>
  The calls made on the Playwright page, in order. A page is given by what awaiting each
  call gives: \<open>None\<close>, or the error it rejects with.
\<close>

datatype page_call = Goto js_value | WaitForLoadState string

record page =
  goto_rejects :: "js_value \<Rightarrow> error option"
  waitForLoadState_rejects :: "string \<Rightarrow> error option"

text \<open>
  The step returns the calls it made on the page and the error it threw, if any.
\<close>

definition navigateToUrl ::
  "process_env_object \<Rightarrow> page option \<Rightarrow> string \<Rightarrow> page_call list \<times> error option" where
  "navigateToUrl env pg url =
     (case pg of
        None \<Rightarrow> ([], Some (Error ''Page not initialized. Make sure BeforeScenario hook ran.''))
      | Some p \<Rightarrow>
          (case (if startsWith url ''env'' then
                   (case env_get env (replace_first url ''env:'' []) of
                      None \<Rightarrow>
                        Inl (Error (''Environment variable for URL '' @ [CHR 0x27] @ url @
                                    [CHR 0x27] @ '' is not set.''))
                    | Some envUrl \<Rightarrow>
                        if falsy envUrl then
                          Inl (Error (''Environment variable for URL '' @ [CHR 0x27] @ url @
                                      [CHR 0x27] @ '' is not set.''))
                        else Inr envUrl)
                 else Inr (JsString url)) of
             Inl e \<Rightarrow> ([], Some e)
           | Inr target \<Rightarrow>
               (case goto_rejects p target of
                  Some e \<Rightarrow> ([Goto target], Some e)
                | None \<Rightarrow>
                    ([Goto target, WaitForLoadState ''networkidle''],
                     waitForLoadState_rejects p ''networkidle''))))"

section \<open>A runtime and requests for the examples\<close>

text \<open>
  The examples below run on a small runtime that answers the inputs listed here and
  fails on every other input; among these is the target \<^verbatim>\<open>//\<close>, on which \<^verbatim>\<open>new URL\<close>
  throws in Node.js as well.
\<close>

definition sample_url :: "string \<Rightarrow> (string \<times> string) list \<Rightarrow> string \<Rightarrow> url" where
  "sample_url path entries target =
     \<lparr>pathname = path, searchParams = entries, href = ''http://localhost:3000'' @ target\<rparr>"

definition sample_URL_new :: "string \<Rightarrow> string \<Rightarrow> url option" where
  "sample_URL_new input base =
     (if base = ''http://localhost:3000'' then
        map_of
          [(''/post'', sample_url ''/post'' [] ''/post''),
           (''/post/'', sample_url ''/post/'' [] ''/post/''),
           (''/post?tag=a&id=7&tag=b'',
            sample_url ''/post'' [(''tag'', ''a''), (''id'', ''7''), (''tag'', ''b'')]
              ''/post?tag=a&id=7&tag=b''),
           (''/forms/post'', sample_url ''/forms/post'' [] ''/forms/post''),
           (''/nonexistent'', sample_url ''/nonexistent'' [] ''/nonexistent'')]
          input
      else None)"

text \<open>
  The decoder of the examples reads an escape below \<^verbatim>\<open>%80\<close>, which stands for one ASCII
  character, as \<^verbatim>\<open>querystring.unescape\<close> does, and keeps everything else as it is.
\<close>

fun sample_unescape :: "string \<Rightarrow> string" where
  "sample_unescape (c # h # l # rest) =
     (if c = CHR ''%'' then
        (case (hex_digit h, hex_digit l) of
           (Some a, Some b) \<Rightarrow>
             if 16 * a + b < 128 then char_of (16 * a + b) # sample_unescape rest
             else c # sample_unescape (h # l # rest)
         | _ \<Rightarrow> c # sample_unescape (h # l # rest))
      else c # sample_unescape (h # l # rest))"
| "sample_unescape s = s"

definition sample_platform :: platform where
  "sample_platform =
     \<lparr>URL_new = sample_URL_new,
      JSON_parse = map_of [(''[true, null]'', JArray [JBool True, JNull])],
      querystring_unescape = sample_unescape,
      readFile = map_of [(''server/public/form.html'', ''<form></form>'')],
      process_env = (\<lambda>name. None),
      toISOString_now = ''2025-01-01T00:00:00.000Z'',
      process_uptime = 1\<rparr>"

definition sample_request :: "string \<Rightarrow> string \<Rightarrow> string \<Rightarrow> string list \<Rightarrow> request" where
  "sample_request meth target ctype body_chunks =
     \<lparr>req_url = Some target,
      req_method = Some meth,
      req_headers =
        [(''host'', Some (Str ''localhost:3000'')), (''content-type'', Some (Str ctype))],
      remoteAddress = Some ''127.0.0.1'',
      chunks = body_chunks\<rparr>"

section \<open>Properties of the objects\<close>

lemma get_own_Nil: "get_own [] k = None"
  by (simp add: get_own_def)

lemma get_own_Cons: "get_own (p # ob) k = (if k = fst p then Some (snd p) else get_own ob k)"
  by (cases p) (simp add: get_own_def)

lemma get_own_define_own:
  "get_own (define_own k v ob) k' = (if k' = k then Some v else get_own ob k')"
  by (induction ob) (auto simp: get_own_def)

lemma keys_define_own: "fst ` set (define_own k v ob) = insert k (fst ` set ob)"
  by (induction ob) auto

lemma distinct_define_own:
  "distinct (map fst ob) \<Longrightarrow> distinct (map fst (define_own k v ob))"
  by (induction ob) (auto simp: keys_define_own)

lemma get_own_assign:
  "get_own (assign k v ob) k' =
     (if k' = k \<and> k \<noteq> ''__proto__'' then Some v else get_own ob k')"
  by (simp add: assign_def get_own_define_own)

lemma distinct_assign: "distinct (map fst ob) \<Longrightarrow> distinct (map fst (assign k v ob))"
  by (simp add: assign_def distinct_define_own)

lemma get_own_None_iff: "get_own ob k = None \<longleftrightarrow> k \<notin> fst ` set ob"
  by (simp add: get_own_def map_of_eq_None_iff)

subsection \<open>Object.fromEntries\<close>

lemma fold_define_own_get:
  "get_own (fold (\<lambda>entry ob. define_own (fst entry) (snd entry) ob) entries ob0) k =
     (if values_of k entries = [] then get_own ob0 k else Some (last (values_of k entries)))"
  by (induction entries arbitrary: ob0) (auto simp: values_of_def get_own_define_own)

lemma fold_define_own_distinct:
  "distinct (map fst ob0) \<Longrightarrow>
   distinct (map fst (fold (\<lambda>entry ob. define_own (fst entry) (snd entry) ob) entries ob0))"
  by (induction entries arbitrary: ob0) (auto simp: distinct_define_own)

subsection \<open>querystring.parse\<close>

lemma addKeyValue_values:
  "own_values (addKeyValue p ob) k = own_values ob k @ (if k = fst p then [snd p] else [])"
  by (cases p)
    (auto simp: own_values_def get_own_define_own split: option.splits string_or_array.splits)

lemma addKeyValue_keys:
  "fst ` set (addKeyValue p ob) = insert (fst p) (fst ` set ob)"
  by (cases p) (auto simp: keys_define_own split: option.splits string_or_array.splits)

lemma addKeyValue_distinct:
  "distinct (map fst ob) \<Longrightarrow> distinct (map fst (addKeyValue p ob))"
  by (cases p) (auto simp: distinct_define_own split: option.splits string_or_array.splits)

lemma fold_addKeyValue_values:
  "own_values (fold addKeyValue ps ob) k = own_values ob k @ values_of k ps"
  by (induction ps arbitrary: ob)
    (auto simp: values_of_def addKeyValue_values simp del: addKeyValue.simps)

lemma fold_addKeyValue_keys:
  "fst ` set (fold addKeyValue ps ob) = fst ` set ps \<union> fst ` set ob"
  by (induction ps arbitrary: ob) (auto simp: addKeyValue_keys simp del: addKeyValue.simps)

lemma fold_addKeyValue_distinct:
  "distinct (map fst ob) \<Longrightarrow> distinct (map fst (fold addKeyValue ps ob))"
  by (induction ps arbitrary: ob) (auto simp: addKeyValue_distinct simp del: addKeyValue.simps)

lemma values_of_Nil_iff: "values_of k ps = [] \<longleftrightarrow> k \<notin> fst ` set ps"
  by (induction ps) (auto simp: values_of_def)

subsection \<open>parseForm\<close>

lemma fold_assign_get:
  "distinct (map fst es) \<Longrightarrow>
   get_own (fold (\<lambda>entry result. assign (fst entry) (f (snd entry)) result) es r0) k =
     (if k \<noteq> ''__proto__'' \<and> k \<in> fst ` set es then map_option f (get_own es k)
      else get_own r0 k)"
proof (induction es arbitrary: r0)
  case Nil
  then show ?case by simp
next
  case (Cons e es)
  then show ?case
    by (auto simp: get_own_assign get_own_Cons image_iff)
qed

lemma fold_assign_distinct:
  "distinct (map fst r0) \<Longrightarrow>
   distinct (map fst (fold (\<lambda>entry result. assign (fst entry) (f (snd entry)) result) es r0))"
  by (induction es arbitrary: r0) (auto simp: distinct_assign)

lemma querystring_parse_fold:
  "querystring_parse P body = fold addKeyValue (read_pairs P body) []"
  by (simp add: querystring_parse_def read_pairs_def split_on_def qs_pairs_def maxKeys_def)

lemma parseForm_get:
  "get_own (parseForm P body) k =
     (if k = ''__proto__'' \<or> values_of k (read_pairs P body) = [] then None
      else Some (values_of k (read_pairs P body)))"
proof -
  let ?parsed = "querystring_parse P body"
  have d: "distinct (map fst ?parsed)"
    by (simp add: querystring_parse_fold fold_addKeyValue_distinct)
  have keys: "fst ` set ?parsed = fst ` set (read_pairs P body)"
    by (simp add: querystring_parse_fold fold_addKeyValue_keys)
  have vals: "own_values ?parsed k = values_of k (read_pairs P body)"
    using fold_addKeyValue_values [of "read_pairs P body" "[]" k]
    by (simp add: querystring_parse_fold own_values_def get_own_Nil)
  have "get_own (parseForm P body) k =
      (if k \<noteq> ''__proto__'' \<and> k \<in> fst ` set ?parsed then map_option to_array (get_own ?parsed k)
       else None)"
    unfolding parseForm_def using fold_assign_get [OF d, of to_array "[]" k]
    by (simp add: get_own_Nil)
  then show ?thesis
    using keys vals
    by (auto simp: values_of_Nil_iff own_values_def get_own_None_iff
        split: option.splits)
qed


lemma read_pairs_all:
  "length (split_on CHR ''&'' body) \<le> maxKeys \<Longrightarrow>
   read_pairs P body = submitted_pairs P body"
  by (simp add: read_pairs_def submitted_pairs_def)

subsection \<open>Capitalized header names\<close>

lemma code_toUpperCase_char:
  "(of_char (toUpperCase_char c) :: nat) =
     (if 97 \<le> (of_char c :: nat) \<and> (of_char c :: nat) \<le> 122 then of_char c - 32
      else of_char c)"
  by (auto simp: toUpperCase_char_def intro!: mod_less)

lemma toUpperCase_char_inj:
  assumes "\<not> is_upper c" and "\<not> is_upper c'" and "toUpperCase_char c = toUpperCase_char c'"
  shows "c = c'"
proof -
  define n n' where "n = (of_char c :: nat)" and "n' = (of_char c' :: nat)"
  have "(of_char (toUpperCase_char c) :: nat) = of_char (toUpperCase_char c')"
    using assms(3) by simp
  then have "(if 97 \<le> n \<and> n \<le> 122 then n - 32 else n) =
      (if 97 \<le> n' \<and> n' \<le> 122 then n' - 32 else n')"
    unfolding code_toUpperCase_char n_def n'_def .
  moreover have "\<not> (65 \<le> n \<and> n \<le> 90)" "\<not> (65 \<le> n' \<and> n' \<le> 90)"
    using assms(1,2) by (simp_all add: is_upper_def n_def n'_def)
  ultimately have "n = n'" by (auto split: if_splits)
  then show ?thesis by (simp add: n_def n'_def)
qed

lemma toUpperCase_char_underscore:
  assumes "toUpperCase_char c = CHR ''_''"
  shows "c = CHR ''_''"
proof -
  define n where "n = (of_char c :: nat)"
  have "(of_char (toUpperCase_char c) :: nat) = 95" using assms by simp
  then have "(if 97 \<le> n \<and> n \<le> 122 then n - 32 else n) = 95"
    unfolding code_toUpperCase_char n_def .
  then have "n = 95" by (auto split: if_splits)
  then have "char_of (of_char c :: nat) = (char_of (95 :: nat) :: char)"
    unfolding n_def by (rule arg_cong)
  then show ?thesis by (simp add: char_of_eq_iff)
qed

lemma capitalize_Nil: "capitalize [] = []"
  by (simp add: capitalize_def)

lemma capitalize_Cons: "capitalize (c # cs) = toUpperCase_char c # cs"
  by (simp add: capitalize_def)

lemma capitalize_inj:
  assumes "lower_cased k" and "lower_cased k'" and "capitalize k = capitalize k'"
  shows "k = k'"
proof (cases k)
  case Nil
  with assms(3) show ?thesis by (cases k') (simp_all add: capitalize_Nil capitalize_Cons)
next
  case (Cons c cs)
  with assms(3) obtain c' where k': "k' = c' # cs" and up: "toUpperCase_char c = toUpperCase_char c'"
    by (cases k') (auto simp: capitalize_Nil capitalize_Cons)
  from assms(1,2) Cons k' have "\<not> is_upper c" "\<not> is_upper c'"
    by (simp_all add: lower_cased_def)
  with up have "c = c'" by (blast intro: toUpperCase_char_inj)
  with Cons k' show ?thesis by simp
qed

lemma capitalize_proto:
  assumes "capitalize k = ''__proto__''"
  shows "k = ''__proto__''"
proof (cases k)
  case Nil
  with assms show ?thesis by (simp add: capitalize_Nil)
next
  case (Cons c cs)
  with assms have "toUpperCase_char c = CHR ''_''" and "cs = ''_proto__''"
    by (simp_all add: capitalize_Cons)
  with Cons show ?thesis by (simp add: toUpperCase_char_underscore)
qed

subsection \<open>parseHeaders\<close>

lemma parseHeaders_step_other:
  "K \<noteq> capitalize (fst e) \<Longrightarrow> get_own (parseHeaders_step e r) K = get_own r K"
  by (cases e; cases "snd e") (auto simp: get_own_assign)

lemma fold_parseHeaders_step_other:
  "K \<notin> capitalize ` fst ` set es \<Longrightarrow> get_own (fold parseHeaders_step es r) K = get_own r K"
  by (induction es arbitrary: r)
    (auto simp: parseHeaders_step_other simp del: parseHeaders_step.simps)

lemma fold_parseHeaders_step_get:
  assumes "distinct (map fst hs)"
    and "list_all lower_cased (map fst hs)"
    and "(name, Some val) \<in> set hs"
    and "name \<noteq> ''__proto__''"
  shows "get_own (fold parseHeaders_step hs r) (capitalize name) = Some (to_array val)"
  using assms
proof (induction hs arbitrary: r)
  case Nil
  then show ?case by simp
next
  case (Cons e es)
  show ?case
  proof (cases "e = (name, Some val)")
    case True
    have "capitalize name \<notin> capitalize ` fst ` set es"
    proof
      assume "capitalize name \<in> capitalize ` fst ` set es"
      then obtain k' where k': "k' \<in> fst ` set es" "capitalize name = capitalize k'" by auto
      from Cons.prems(2) True k'(1) have "lower_cased name" "lower_cased k'"
        by (auto simp: list_all_iff)
      with k'(2) have "name = k'" by (blast intro: capitalize_inj)
      with Cons.prems(1) True k'(1) show False by auto
    qed
    then have "get_own (fold parseHeaders_step es (parseHeaders_step e r)) (capitalize name) =
        get_own (parseHeaders_step e r) (capitalize name)"
      by (rule fold_parseHeaders_step_other)
    moreover have "capitalize name \<noteq> ''__proto__''"
      using Cons.prems(4) capitalize_proto by blast
    ultimately show ?thesis using True by (simp add: get_own_assign)
  next
    case False
    with Cons.prems have "(name, Some val) \<in> set es" "distinct (map fst es)"
      "list_all lower_cased (map fst es)"
      by auto
    with Cons.IH [of "parseHeaders_step e r"] Cons.prems(4) show ?thesis by simp
  qed
qed

lemma fold_parseHeaders_step_origin:
  "get_own (fold parseHeaders_step hs r) K = Some vs \<Longrightarrow>
   get_own r K = Some vs \<or>
   (\<exists>name val. (name, Some val) \<in> set hs \<and> K = capitalize name \<and> vs = to_array val)"
proof (induction hs arbitrary: r)
  case Nil
  then show ?case by simp
next
  case (Cons e es)
  from Cons.IH [of "parseHeaders_step e r"] Cons.prems
  consider "get_own (parseHeaders_step e r) K = Some vs"
    | "\<exists>name val. (name, Some val) \<in> set es \<and> K = capitalize name \<and> vs = to_array val"
    by auto
  then show ?case
  proof cases
    case 1
    then show ?thesis
      by (cases e; cases "snd e") (auto simp: get_own_assign split: if_splits)
  next
    case 2
    then show ?thesis by auto
  qed
qed

lemma node_headers_parts:
  "node_headers hs \<Longrightarrow>
   distinct (map fst hs) \<and> list_all lower_cased (map fst hs) \<and> ''__proto__'' \<notin> fst ` set hs"
  by (auto simp: node_headers_def list_all_iff)

text \<open>
  Why the statement on headers is about headers as Node.js delivers them: two names that
  differ in the case of their first letter would share a key, and a key \<^verbatim>\<open>__proto__\<close> would
  be lost.
\<close>

lemma parseHeaders_upper_case_collision:
  "parseHeaders [(''x-a'', Some (Str ''1'')), (''X-a'', Some (Str ''2''))] = [(''X-a'', [''2''])]"
  by (simp add: parseHeaders_def capitalize_def toUpperCase_char_def char_of_eq_iff assign_def)

lemma parseHeaders_drops_proto_key:
  "parseHeaders [(''__proto__'', Some (Str ''x'')), (''host'', Some (Str ''h''))] =
     [(''Host'', [''h''])]"
  by (simp add: parseHeaders_def capitalize_def toUpperCase_char_def char_of_eq_iff assign_def)

subsection \<open>Router\<close>

lemma find_route_first:
  assumes "i < length routes"
    and "Some (route_method (routes ! i)) = meth" and "route_path (routes ! i) = path"
    and "\<forall>j<i. \<not> (Some (route_method (routes ! j)) = meth \<and> route_path (routes ! j) = path)"
  shows "find_route routes meth path = Some (routes ! i)"
  unfolding find_route_def using assms by (subst find_Some_iff) blast


lemma handle_POST_post:
  assumes "POST_post P req u"
  shows "handle P (router_routes P) req res =
     Inr (res @ [WriteHead 200 [(''Content-Type'', ''application/json'')],
                 End (Stringify_mirror (sent_mirror P u req))])"
  using assms
  by (simp add: POST_post_def handle_def router_routes_def get_def post_def find_route_def
      handlePost_def postHandler_def sent_mirror_def)

subsection \<open>The form decoder reads a bounded number of pairs and keeps no \<^verbatim>\<open>__proto__\<close> key\<close>

lemma read_pairs_bounded: "length (read_pairs P body) \<le> maxKeys"
proof -
  have "length (read_pairs P body) \<le> length (take maxKeys (split_on CHR ''&'' body))"
    unfolding read_pairs_def qs_pairs_def by (simp del: length_take)
  then show ?thesis by simp
qed

lemma parseForm_drops_proto_key:
  "parseForm P ''__proto__=x&a=1'' = [(''a'', [''1''])]"
  by (simp add: parseForm_def querystring_parse_def read_pairs_def qs_pairs_def split_pair_def
      qs_decode_def maxKeys_def get_own_def assign_def split_on_def)

lemma split_from_segments:
  "split_from CHR ''&'' [] (concat (replicate n ''a&'') @ rest) =
     replicate n ''a'' @ split_from CHR ''&'' [] rest"
  by (induction n) simp_all

lemma qs_pairs_append: "qs_pairs P (xs @ ys) = qs_pairs P xs @ qs_pairs P ys"
  by (simp add: qs_pairs_def)

lemma qs_pairs_replicate: "qs_pairs P (replicate n ''a'') = replicate n (''a'', [])"
  by (induction n) (simp_all add: qs_pairs_def split_pair_def qs_decode_def)

text \<open>
  A body of \<open>maxKeys\<close> segments followed by \<^verbatim>\<open>b=1\<close>: the key \<^verbatim>\<open>b\<close> is submitted and is
  not read.
\<close>

lemma parseForm_stops_at_maxKeys:
  "get_own (parseForm P (concat (replicate maxKeys ''a&'') @ ''b=1'')) ''b'' = None \<and>
   values_of ''b'' (submitted_pairs P (concat (replicate maxKeys ''a&'') @ ''b=1'')) = [''1'']"
proof -
  let ?body = "concat (replicate maxKeys ''a&'') @ ''b=1''"
  have segs: "split_on CHR ''&'' ?body = replicate maxKeys ''a'' @ [''b=1'']"
    unfolding split_on_def split_from_segments by simp
  have "read_pairs P ?body = replicate maxKeys (''a'', [])"
    unfolding read_pairs_def segs by (simp add: qs_pairs_replicate)
  then have "values_of ''b'' (read_pairs P ?body) = []"
    by (simp add: values_of_def)
  then have 1: "get_own (parseForm P ?body) ''b'' = None"
    by (simp add: parseForm_get)
  have "submitted_pairs P ?body = replicate maxKeys (''a'', []) @ [(''b'', ''1'')]"
    unfolding submitted_pairs_def segs
    by (simp add: qs_pairs_append qs_pairs_replicate)
      (simp add: qs_pairs_def split_pair_def qs_decode_def)
  then have 2: "values_of ''b'' (submitted_pairs P ?body) = [''1'']"
    by (simp add: values_of_def)
  from 1 2 show ?thesis by simp
qed

subsection \<open>Substrings\<close>

lemma startsWith_append: "startsWith (p @ rest) p"
  by (induction p) simp_all

lemma str_includes_suffix: "str_includes s sub \<Longrightarrow> str_includes (pre @ s) sub"
  by (induction pre) simp_all

lemma str_includes_middle: "str_includes (pre @ sub @ rest) sub"
proof -
  have "str_includes (sub @ rest) sub"
  proof (cases "sub @ rest")
    case Nil
    then show ?thesis by simp
  next
    case (Cons c cs)
    have "startsWith (sub @ rest) sub" by (rule startsWith_append)
    then show ?thesis unfolding Cons by simp
  qed
  then show ?thesis by (rule str_includes_suffix)
qed

subsection \<open>navigateToUrl on a name that reads as undefined\<close>

text \<open>
  For a target \<^verbatim>\<open>env:NAME\<close> whose variable is not set and whose name is not inherited,
  the step, once the page is initialised, makes no call on the page and throws an error
  whose message contains the name.
\<close>

lemma navigate_unset_variable_raises:
  assumes "variables env name = None" and "\<not> inherits env name"
  shows "navigateToUrl env (Some p) (''env:'' @ name) =
           ([], Some (Error (''Environment variable for URL '' @ [CHR 0x27] @ ''env:'' @ name @
                             [CHR 0x27] @ '' is not set.''))) \<and>
         str_includes
           (''Environment variable for URL '' @ [CHR 0x27] @ ''env:'' @ name @
            [CHR 0x27] @ '' is not set.'') name"
proof -
  have "str_includes
      ((''Environment variable for URL '' @ [CHR 0x27] @ ''env:'') @ name @
       ([CHR 0x27] @ '' is not set.'')) name"
    by (rule str_includes_middle)
  then show ?thesis
    using assms by (simp add: navigateToUrl_def env_get_def)
qed

lemma navigate_set_variable_goes:
  "navigateToUrl
     \<lparr>variables = (\<lambda>name. if name = ''HTTPBIN_FORM_URL''
                              then Some ''http://localhost:3000/forms/post'' else None),
      inherits = (\<lambda>name. name = ''toString'')\<rparr>
     (Some \<lparr>goto_rejects = (\<lambda>target. None), waitForLoadState_rejects = (\<lambda>state. None)\<rparr>)
     ''env:HTTPBIN_FORM_URL'' =
     ([Goto (JsString ''http://localhost:3000/forms/post''), WaitForLoadState ''networkidle''],
      None)"
  by (simp add: navigateToUrl_def env_get_def)

subsection \<open>Unfolding the examples\<close>

lemmas sample_defs = POST_post_def sample_platform_def sample_request_def sample_URL_new_def
  sample_url_def url_or_empty_def base_url_def header_def get_own_def contentType_def body_of_def

section \<open>The properties stated by the specification\<close>

text \<open>
  C1. For every POST /post request whose Content-Type header contains
  \<^verbatim>\<open>application/json\<close>: the reply is written without an error, with status 200; its
  \<^verbatim>\<open>json\<close> field is the parsed body when the body parses and \<^verbatim>\<open>null\<close> when parsing fails;
  its \<^verbatim>\<open>data\<close> field is the body as received.
\<close>

theorem post_json_parsed_or_null:
  assumes "POST_post P req u"
    and "value_includes (contentType req) ''application/json''"
  shows "handle P (router_routes P) req res =
           Inr (res @ [WriteHead 200 [(''Content-Type'', ''application/json'')],
                       End (Stringify_mirror (sent_mirror P u req))]) \<and>
         json (sent_mirror P u req) =
           (case JSON_parse P (body_of req) of Some v \<Rightarrow> v | None \<Rightarrow> JNull) \<and>
         data (sent_mirror P u req) = Some (body_of req)"
  using assms handle_POST_post [OF assms(1), of res]
  by (simp add: sent_mirror_def mirror_response_def json_and_form_def try_JSON_parse_def)

text \<open>
  An instance with a body that parses, sent in two chunks, and one with a body that does
  not parse.
\<close>

theorem post_json_parsed_or_null_witness:
  "POST_post sample_platform
     (sample_request ''POST'' ''/post'' ''application/json; charset=utf-8'' [''[true,'', '' null]''])
     (sample_url ''/post'' [] ''/post'') \<and>
   value_includes
     (contentType
       (sample_request ''POST'' ''/post'' ''application/json; charset=utf-8'' [''[true,'', '' null]'']))
     ''application/json'' \<and>
   json (sent_mirror sample_platform (sample_url ''/post'' [] ''/post'')
     (sample_request ''POST'' ''/post'' ''application/json; charset=utf-8'' [''[true,'', '' null]'']))
     = JArray [JBool True, JNull] \<and>
   data (sent_mirror sample_platform (sample_url ''/post'' [] ''/post'')
     (sample_request ''POST'' ''/post'' ''application/json; charset=utf-8'' [''[true,'', '' null]'']))
     = Some ''[true, null]'' \<and>
   POST_post sample_platform
     (sample_request ''POST'' ''/post'' ''application/json'' [''{invalid: json}''])
     (sample_url ''/post'' [] ''/post'') \<and>
   handle sample_platform (router_routes sample_platform)
     (sample_request ''POST'' ''/post'' ''application/json'' [''{invalid: json}'']) [] =
     Inr [WriteHead 200 [(''Content-Type'', ''application/json'')],
          End (Stringify_mirror (sent_mirror sample_platform (sample_url ''/post'' [] ''/post'')
            (sample_request ''POST'' ''/post'' ''application/json'' [''{invalid: json}''])))] \<and>
   json (sent_mirror sample_platform (sample_url ''/post'' [] ''/post'')
     (sample_request ''POST'' ''/post'' ''application/json'' [''{invalid: json}'']))
     = JNull \<and>
   data (sent_mirror sample_platform (sample_url ''/post'' [] ''/post'')
     (sample_request ''POST'' ''/post'' ''application/json'' [''{invalid: json}'']))
     = Some ''{invalid: json}''"
proof -
  let ?u = "sample_url ''/post'' [] ''/post''"
  let ?good = "sample_request ''POST'' ''/post'' ''application/json; charset=utf-8''
    [''[true,'', '' null]'']"
  let ?bad = "sample_request ''POST'' ''/post'' ''application/json'' [''{invalid: json}'']"
  have g1: "POST_post sample_platform ?good ?u" by (simp add: sample_defs)
  have g2: "value_includes (contentType ?good) ''application/json''" by (simp add: sample_defs)
  have b1: "POST_post sample_platform ?bad ?u" by (simp add: sample_defs)
  have b2: "value_includes (contentType ?bad) ''application/json''" by (simp add: sample_defs)
  have jg: "JSON_parse sample_platform ''[true, null]'' = Some (JArray [JBool True, JNull])"
    by (simp add: sample_defs)
  have jb: "JSON_parse sample_platform ''{invalid: json}'' = None"
    by (simp add: sample_defs)
  have bg: "body_of ?good = ''[true, null]''" by (simp add: sample_defs)
  have bb: "body_of ?bad = ''{invalid: json}''" by (simp add: sample_defs)
  from post_json_parsed_or_null [OF g1 g2, of "[]"] post_json_parsed_or_null [OF b1 b2, of "[]"]
  show ?thesis
    using g1 g2 b1 by (simp add: jg jb bg bb)
qed

text \<open>
  C2, as the code has it. For every POST /post request at most one of \<^verbatim>\<open>form\<close> and
  \<^verbatim>\<open>json\<close> is populated: \<^verbatim>\<open>json\<close> is not \<^verbatim>\<open>null\<close> only when the content type includes
  \<^verbatim>\<open>application/json\<close>; \<^verbatim>\<open>form\<close> is not empty only when the content type includes
  \<^verbatim>\<open>application/x-www-form-urlencoded\<close> and not \<^verbatim>\<open>application/json\<close>; with neither
  substring both stay unpopulated; \<^verbatim>\<open>data\<close> is always the body as received.
\<close>

theorem form_json_by_content_type:
  assumes "POST_post P req u"
  shows "handle P (router_routes P) req res =
           Inr (res @ [WriteHead 200 [(''Content-Type'', ''application/json'')],
                       End (Stringify_mirror (sent_mirror P u req))]) \<and>
         (json (sent_mirror P u req) \<noteq> JNull \<longrightarrow>
            value_includes (contentType req) ''application/json'') \<and>
         (form (sent_mirror P u req) \<noteq> [] \<longrightarrow>
            value_includes (contentType req) ''application/x-www-form-urlencoded'' \<and>
            \<not> value_includes (contentType req) ''application/json'') \<and>
         (json (sent_mirror P u req) = JNull \<or> form (sent_mirror P u req) = []) \<and>
         (\<not> value_includes (contentType req) ''application/json'' \<and>
          \<not> value_includes (contentType req) ''application/x-www-form-urlencoded'' \<longrightarrow>
            form (sent_mirror P u req) = [] \<and> json (sent_mirror P u req) = JNull) \<and>
         data (sent_mirror P u req) = Some (body_of req)"
  using handle_POST_post [OF assms, of res]
  by (simp add: sent_mirror_def mirror_response_def json_and_form_def)

text \<open>
  A form request, where \<^verbatim>\<open>form\<close> alone is populated, and a \<^verbatim>\<open>text/plain\<close> request,
  where neither is.
\<close>

theorem form_json_by_content_type_witness:
  "POST_post sample_platform
     (sample_request ''POST'' ''/post'' ''application/x-www-form-urlencoded'' [''a=1''])
     (sample_url ''/post'' [] ''/post'') \<and>
   form (sent_mirror sample_platform (sample_url ''/post'' [] ''/post'')
     (sample_request ''POST'' ''/post'' ''application/x-www-form-urlencoded'' [''a=1'']))
     = [(''a'', [''1''])] \<and>
   json (sent_mirror sample_platform (sample_url ''/post'' [] ''/post'')
     (sample_request ''POST'' ''/post'' ''application/x-www-form-urlencoded'' [''a=1'']))
     = JNull \<and>
   data (sent_mirror sample_platform (sample_url ''/post'' [] ''/post'')
     (sample_request ''POST'' ''/post'' ''application/x-www-form-urlencoded'' [''a=1'']))
     = Some ''a=1'' \<and>
   value_includes
     (contentType (sample_request ''POST'' ''/post'' ''application/x-www-form-urlencoded'' [''a=1'']))
     ''application/x-www-form-urlencoded'' \<and>
   \<not> value_includes
     (contentType (sample_request ''POST'' ''/post'' ''application/x-www-form-urlencoded'' [''a=1'']))
     ''application/json'' \<and>
   POST_post sample_platform (sample_request ''POST'' ''/post'' ''text/plain'' [''a=1''])
     (sample_url ''/post'' [] ''/post'') \<and>
   form (sent_mirror sample_platform (sample_url ''/post'' [] ''/post'')
     (sample_request ''POST'' ''/post'' ''text/plain'' [''a=1''])) = [] \<and>
   json (sent_mirror sample_platform (sample_url ''/post'' [] ''/post'')
     (sample_request ''POST'' ''/post'' ''text/plain'' [''a=1''])) = JNull \<and>
   data (sent_mirror sample_platform (sample_url ''/post'' [] ''/post'')
     (sample_request ''POST'' ''/post'' ''text/plain'' [''a=1''])) = Some ''a=1''"
proof -
  let ?u = "sample_url ''/post'' [] ''/post''"
  let ?f = "sample_request ''POST'' ''/post'' ''application/x-www-form-urlencoded'' [''a=1'']"
  let ?t = "sample_request ''POST'' ''/post'' ''text/plain'' [''a=1'']"
  have f1: "POST_post sample_platform ?f ?u" by (simp add: sample_defs)
  have t1: "POST_post sample_platform ?t ?u" by (simp add: sample_defs)
  have cf: "value_includes (contentType ?f) ''application/x-www-form-urlencoded''"
    "\<not> value_includes (contentType ?f) ''application/json''"
    by (simp_all add: sample_defs)
  have ct: "\<not> value_includes (contentType ?t) ''application/x-www-form-urlencoded''"
    "\<not> value_includes (contentType ?t) ''application/json''"
    by (simp_all add: sample_defs)
  have bf: "body_of ?f = ''a=1''" and bt: "body_of ?t = ''a=1''"
    by (simp_all add: sample_defs)
  have pf: "parseForm sample_platform ''a=1'' = [(''a'', [''1''])]"
    by (simp add: parseForm_def querystring_parse_def read_pairs_def qs_pairs_def split_pair_def
        qs_decode_def maxKeys_def get_own_def assign_def split_on_def)
  have ff: "form (sent_mirror sample_platform ?u ?f) = [(''a'', [''1''])]"
    by (simp add: sent_mirror_def mirror_response_def json_and_form_def cf bf pf)
  from form_json_by_content_type [OF f1, of "[]"] form_json_by_content_type [OF t1, of "[]"]
  show ?thesis
    using f1 t1 cf ct ff by (simp add: bf bt)
qed

text \<open>
  C2 as stated asks for exactly one of \<^verbatim>\<open>form\<close> and \<^verbatim>\<open>json\<close> to be populated on every
  request. A request with a JSON content type and a body that does not parse gets
  \<^verbatim>\<open>json = null\<close> and \<^verbatim>\<open>form = {}\<close>: neither is populated.
\<close>

theorem exactly_one_populated_counterexample:
  "POST_post sample_platform
     (sample_request ''POST'' ''/post'' ''application/json'' [''{invalid: json}''])
     (sample_url ''/post'' [] ''/post'') \<and>
   handle sample_platform (router_routes sample_platform)
     (sample_request ''POST'' ''/post'' ''application/json'' [''{invalid: json}'']) [] =
     Inr [WriteHead 200 [(''Content-Type'', ''application/json'')],
          End (Stringify_mirror (sent_mirror sample_platform (sample_url ''/post'' [] ''/post'')
            (sample_request ''POST'' ''/post'' ''application/json'' [''{invalid: json}''])))] \<and>
   json (sent_mirror sample_platform (sample_url ''/post'' [] ''/post'')
     (sample_request ''POST'' ''/post'' ''application/json'' [''{invalid: json}''])) = JNull \<and>
   form (sent_mirror sample_platform (sample_url ''/post'' [] ''/post'')
     (sample_request ''POST'' ''/post'' ''application/json'' [''{invalid: json}''])) = []"
proof -
  let ?u = "sample_url ''/post'' [] ''/post''"
  let ?bad = "sample_request ''POST'' ''/post'' ''application/json'' [''{invalid: json}'']"
  have b1: "POST_post sample_platform ?bad ?u" by (simp add: sample_defs)
  have b2: "value_includes (contentType ?bad) ''application/json''" by (simp add: sample_defs)
  have jb: "JSON_parse sample_platform (body_of ?bad) = None" by (simp add: sample_defs)
  show ?thesis
    using b1 handle_POST_post [OF b1, of "[]"]
    by (simp add: sent_mirror_def mirror_response_def json_and_form_def try_JSON_parse_def b2 jb)
qed

text \<open>
  C3, as the code has it. For every POST /post request whose content type includes
  \<^verbatim>\<open>application/x-www-form-urlencoded\<close> and not \<^verbatim>\<open>application/json\<close>, and whose body has
  at most \<open>maxKeys\<close> segments between \<^verbatim>\<open>&\<close>: \<^verbatim>\<open>form\<close> maps every submitted key other than
  \<^verbatim>\<open>__proto__\<close> to the list of all its values in submission order, holds no other such
  key, and \<^verbatim>\<open>json\<close> is \<^verbatim>\<open>null\<close>. Keys and values are the decoded ones, whatever the
  percent decoder of the runtime gives.
\<close>

theorem form_values_in_submission_order:
  assumes "POST_post P req u"
    and "value_includes (contentType req) ''application/x-www-form-urlencoded''"
    and "\<not> value_includes (contentType req) ''application/json''"
    and "length (split_on CHR ''&'' (body_of req)) \<le> maxKeys"
    and "key \<noteq> ''__proto__''"
  shows "handle P (router_routes P) req res =
           Inr (res @ [WriteHead 200 [(''Content-Type'', ''application/json'')],
                       End (Stringify_mirror (sent_mirror P u req))]) \<and>
         get_own (form (sent_mirror P u req)) key =
           (if values_of key (submitted_pairs P (body_of req)) = [] then None
            else Some (values_of key (submitted_pairs P (body_of req)))) \<and>
         json (sent_mirror P u req) = JNull"
proof -
  have "form (sent_mirror P u req) = parseForm P (body_of req)"
    using assms(2,3) by (simp add: sent_mirror_def mirror_response_def json_and_form_def)
  moreover have "read_pairs P (body_of req) = submitted_pairs P (body_of req)"
    using assms(4) by (rule read_pairs_all)
  moreover have "json (sent_mirror P u req) = JNull"
    using assms(3) by (simp add: sent_mirror_def mirror_response_def json_and_form_def)
  ultimately show ?thesis
    using handle_POST_post [OF assms(1), of res] assms(5) by (simp add: parseForm_get)
qed

text \<open>
  The body \<^verbatim>\<open>custname=John+Doe&topping=bacon&topping=cheese\<close>: \<^verbatim>\<open>form.custname\<close> is
  \<^verbatim>\<open>["John Doe"]\<close>, \<^verbatim>\<open>form.topping\<close> is \<^verbatim>\<open>["bacon","cheese"]\<close>, \<^verbatim>\<open>json\<close> is \<^verbatim>\<open>null\<close>.
  A second body has escapes in a value and in a key, and a \<^verbatim>\<open>%\<close> that starts no escape.
\<close>

theorem form_values_in_submission_order_witness:
  "POST_post sample_platform
     (sample_request ''POST'' ''/post'' ''application/x-www-form-urlencoded''
       [''custname=John+Doe&topping=bacon&topping=cheese''])
     (sample_url ''/post'' [] ''/post'') \<and>
   value_includes
     (contentType (sample_request ''POST'' ''/post'' ''application/x-www-form-urlencoded''
       [''custname=John+Doe&topping=bacon&topping=cheese'']))
     ''application/x-www-form-urlencoded'' \<and>
   \<not> value_includes
     (contentType (sample_request ''POST'' ''/post'' ''application/x-www-form-urlencoded''
       [''custname=John+Doe&topping=bacon&topping=cheese'']))
     ''application/json'' \<and>
   length (split_on CHR ''&'' ''custname=John+Doe&topping=bacon&topping=cheese'') \<le> maxKeys \<and>
   get_own (form (sent_mirror sample_platform (sample_url ''/post'' [] ''/post'')
     (sample_request ''POST'' ''/post'' ''application/x-www-form-urlencoded''
       [''custname=John+Doe&topping=bacon&topping=cheese'']))) ''custname'' = Some [''John Doe''] \<and>
   get_own (form (sent_mirror sample_platform (sample_url ''/post'' [] ''/post'')
     (sample_request ''POST'' ''/post'' ''application/x-www-form-urlencoded''
       [''custname=John+Doe&topping=bacon&topping=cheese'']))) ''topping'' =
     Some [''bacon'', ''cheese''] \<and>
   get_own (form (sent_mirror sample_platform (sample_url ''/post'' [] ''/post'')
     (sample_request ''POST'' ''/post'' ''application/x-www-form-urlencoded''
       [''custname=John+Doe&topping=bacon&topping=cheese'']))) ''size'' = None \<and>
   json (sent_mirror sample_platform (sample_url ''/post'' [] ''/post'')
     (sample_request ''POST'' ''/post'' ''application/x-www-form-urlencoded''
       [''custname=John+Doe&topping=bacon&topping=cheese''])) = JNull \<and>
   POST_post sample_platform
     (sample_request ''POST'' ''/post'' ''application/x-www-form-urlencoded''
       [''note=a%26b+c&note=100%&x%3Dy=1''])
     (sample_url ''/post'' [] ''/post'') \<and>
   length (split_on CHR ''&'' ''note=a%26b+c&note=100%&x%3Dy=1'') \<le> maxKeys \<and>
   get_own (form (sent_mirror sample_platform (sample_url ''/post'' [] ''/post'')
     (sample_request ''POST'' ''/post'' ''application/x-www-form-urlencoded''
       [''note=a%26b+c&note=100%&x%3Dy=1'']))) ''note'' = Some [''a&b c'', ''100%''] \<and>
   get_own (form (sent_mirror sample_platform (sample_url ''/post'' [] ''/post'')
     (sample_request ''POST'' ''/post'' ''application/x-www-form-urlencoded''
       [''note=a%26b+c&note=100%&x%3Dy=1'']))) ''x=y'' = Some [''1'']"
proof -
  let ?u = "sample_url ''/post'' [] ''/post''"
  let ?b = "''custname=John+Doe&topping=bacon&topping=cheese''"
  let ?f = "sample_request ''POST'' ''/post'' ''application/x-www-form-urlencoded'' [?b]"
  let ?c = "''note=a%26b+c&note=100%&x%3Dy=1''"
  let ?g = "sample_request ''POST'' ''/post'' ''application/x-www-form-urlencoded'' [?c]"
  have f1: "POST_post sample_platform ?f ?u" by (simp add: sample_defs)
  have f2: "value_includes (contentType ?f) ''application/x-www-form-urlencoded''"
    by (simp add: sample_defs)
  have f3: "\<not> value_includes (contentType ?f) ''application/json''"
    by (simp add: sample_defs)
  have b: "body_of ?f = ?b" by (simp add: sample_defs)
  have f4': "length (split_on CHR ''&'' ?b) \<le> maxKeys"
    by (simp add: split_on_def maxKeys_def)
  then have f4: "length (split_on CHR ''&'' (body_of ?f)) \<le> maxKeys"
    by (simp only: b)
  have sp: "submitted_pairs sample_platform ?b =
      [(''custname'', ''John Doe''), (''topping'', ''bacon''), (''topping'', ''cheese'')]"
    by (simp add: submitted_pairs_def qs_pairs_def split_pair_def qs_decode_def split_on_def
        hex_digit_def)
  have g1: "POST_post sample_platform ?g ?u" by (simp add: sample_defs)
  have g2: "value_includes (contentType ?g) ''application/x-www-form-urlencoded''"
    by (simp add: sample_defs)
  have g3: "\<not> value_includes (contentType ?g) ''application/json''"
    by (simp add: sample_defs)
  have c: "body_of ?g = ?c" by (simp add: sample_defs)
  have g4': "length (split_on CHR ''&'' ?c) \<le> maxKeys"
    by (simp add: split_on_def maxKeys_def)
  then have g4: "length (split_on CHR ''&'' (body_of ?g)) \<le> maxKeys"
    by (simp only: c)
  have sq: "submitted_pairs sample_platform ?c =
      [(''note'', ''a&b c''), (''note'', ''100%''), (''x=y'', ''1'')]"
    by (simp add: submitted_pairs_def qs_pairs_def split_pair_def qs_decode_def split_on_def
        hex_digit_def sample_platform_def char_of_eq_iff)
  have k: "''custname'' \<noteq> ''__proto__''" "''topping'' \<noteq> ''__proto__''"
    "''size'' \<noteq> ''__proto__''" "''note'' \<noteq> ''__proto__''" "''x=y'' \<noteq> ''__proto__''"
    by simp_all
  note t1 = form_values_in_submission_order [OF f1 f2 f3 f4 k(1), of "[]"]
  note t2 = form_values_in_submission_order [OF f1 f2 f3 f4 k(2), of "[]"]
  note t3 = form_values_in_submission_order [OF f1 f2 f3 f4 k(3), of "[]"]
  note t4 = form_values_in_submission_order [OF g1 g2 g3 g4 k(4), of "[]"]
  note t5 = form_values_in_submission_order [OF g1 g2 g3 g4 k(5), of "[]"]
  from t1 [THEN conjunct2] t2 [THEN conjunct2] t3 [THEN conjunct2]
    t4 [THEN conjunct2, THEN conjunct1] t5 [THEN conjunct2, THEN conjunct1]
  show ?thesis
    using f1 f2 f3 f4' g1 g4' by (simp add: b c sp sq values_of_def)
qed

text \<open>
  C3 as stated covers every content type that includes
  \<^verbatim>\<open>application/x-www-form-urlencoded\<close>. When the content type also includes
  \<^verbatim>\<open>application/json\<close> the JSON branch runs instead: the body \<^verbatim>\<open>a=1\<close> submits the key
  \<^verbatim>\<open>a\<close>, and \<^verbatim>\<open>form\<close> has no key \<^verbatim>\<open>a\<close>.
\<close>

theorem form_values_counterexample:
  "POST_post sample_platform
     (sample_request ''POST'' ''/post''
       ''application/x-www-form-urlencoded, application/json'' [''a=1''])
     (sample_url ''/post'' [] ''/post'') \<and>
   value_includes
     (contentType (sample_request ''POST'' ''/post''
       ''application/x-www-form-urlencoded, application/json'' [''a=1'']))
     ''application/x-www-form-urlencoded'' \<and>
   values_of ''a'' (submitted_pairs sample_platform (body_of (sample_request ''POST'' ''/post''
       ''application/x-www-form-urlencoded, application/json'' [''a=1'']))) = [''1''] \<and>
   handle sample_platform (router_routes sample_platform)
     (sample_request ''POST'' ''/post''
       ''application/x-www-form-urlencoded, application/json'' [''a=1'']) [] =
     Inr [WriteHead 200 [(''Content-Type'', ''application/json'')],
          End (Stringify_mirror (sent_mirror sample_platform (sample_url ''/post'' [] ''/post'')
            (sample_request ''POST'' ''/post''
              ''application/x-www-form-urlencoded, application/json'' [''a=1''])))] \<and>
   get_own (form (sent_mirror sample_platform (sample_url ''/post'' [] ''/post'')
     (sample_request ''POST'' ''/post''
       ''application/x-www-form-urlencoded, application/json'' [''a=1'']))) ''a'' = None"
proof -
  let ?u = "sample_url ''/post'' [] ''/post''"
  let ?m = "sample_request ''POST'' ''/post''
    ''application/x-www-form-urlencoded, application/json'' [''a=1'']"
  have m1: "POST_post sample_platform ?m ?u" by (simp add: sample_defs)
  have m2: "value_includes (contentType ?m) ''application/x-www-form-urlencoded''"
    by (simp add: sample_defs)
  have m3: "value_includes (contentType ?m) ''application/json''"
    by (simp add: sample_defs)
  have b: "body_of ?m = ''a=1''" by (simp add: sample_defs)
  have sp: "submitted_pairs sample_platform ''a=1'' = [(''a'', ''1'')]"
    by (simp add: submitted_pairs_def qs_pairs_def split_pair_def qs_decode_def split_on_def
        hex_digit_def)
  have fm: "form (sent_mirror sample_platform ?u ?m) = []"
    using m3 by (simp add: sent_mirror_def mirror_response_def json_and_form_def)
  show ?thesis
    using m1 m2 handle_POST_post [OF m1, of "[]"]
    by (simp add: b sp fm values_of_def get_own_Nil)
qed

text \<open>
  C4. For every POST /post request, \<^verbatim>\<open>args\<close> holds each key of the query string once,
  with a single string: the value of the last entry of \<^verbatim>\<open>searchParams\<close> with that key.
\<close>

theorem args_last_value_wins:
  assumes "POST_post P req u"
  shows "handle P (router_routes P) req res =
           Inr (res @ [WriteHead 200 [(''Content-Type'', ''application/json'')],
                       End (Stringify_mirror (sent_mirror P u req))]) \<and>
         distinct (map fst (args (sent_mirror P u req))) \<and>
         get_own (args (sent_mirror P u req)) key =
           (if values_of key (searchParams u) = [] then None
            else Some (last (values_of key (searchParams u))))"
proof -
  have a: "args (sent_mirror P u req) = Object_fromEntries (searchParams u)"
    by (simp add: sent_mirror_def mirror_response_def json_and_form_def)
  have "distinct (map fst (Object_fromEntries (searchParams u)))"
    unfolding Object_fromEntries_def by (rule fold_define_own_distinct) simp
  moreover have "get_own (Object_fromEntries (searchParams u)) key =
      (if values_of key (searchParams u) = [] then None
       else Some (last (values_of key (searchParams u))))"
    unfolding Object_fromEntries_def by (simp add: fold_define_own_get get_own_Nil)
  ultimately show ?thesis
    using handle_POST_post [OF assms, of res] by (simp add: a)
qed

text \<open>
  The query \<^verbatim>\<open>tag=a&id=7&tag=b\<close> gives \<^verbatim>\<open>args = {tag: "b", id: "7"}\<close>.
\<close>

theorem args_last_value_wins_witness:
  "POST_post sample_platform
     (sample_request ''POST'' ''/post?tag=a&id=7&tag=b'' ''text/plain'' [])
     (sample_url ''/post'' [(''tag'', ''a''), (''id'', ''7''), (''tag'', ''b'')]
       ''/post?tag=a&id=7&tag=b'') \<and>
   args (sent_mirror sample_platform
     (sample_url ''/post'' [(''tag'', ''a''), (''id'', ''7''), (''tag'', ''b'')]
       ''/post?tag=a&id=7&tag=b'')
     (sample_request ''POST'' ''/post?tag=a&id=7&tag=b'' ''text/plain'' [])) =
     [(''tag'', ''b''), (''id'', ''7'')] \<and>
   get_own (args (sent_mirror sample_platform
     (sample_url ''/post'' [(''tag'', ''a''), (''id'', ''7''), (''tag'', ''b'')]
       ''/post?tag=a&id=7&tag=b'')
     (sample_request ''POST'' ''/post?tag=a&id=7&tag=b'' ''text/plain'' []))) ''tag'' = Some ''b'' \<and>
   get_own (args (sent_mirror sample_platform
     (sample_url ''/post'' [(''tag'', ''a''), (''id'', ''7''), (''tag'', ''b'')]
       ''/post?tag=a&id=7&tag=b'')
     (sample_request ''POST'' ''/post?tag=a&id=7&tag=b'' ''text/plain'' []))) ''size'' = None"
proof -
  let ?u = "sample_url ''/post'' [(''tag'', ''a''), (''id'', ''7''), (''tag'', ''b'')]
    ''/post?tag=a&id=7&tag=b''"
  let ?q = "sample_request ''POST'' ''/post?tag=a&id=7&tag=b'' ''text/plain'' []"
  have q1: "POST_post sample_platform ?q ?u" by (simp add: sample_defs)
  have a: "args (sent_mirror sample_platform ?u ?q) = [(''tag'', ''b''), (''id'', ''7'')]"
    by (simp add: sent_mirror_def mirror_response_def json_and_form_def Object_fromEntries_def
        sample_url_def)
  have sp: "searchParams ?u = [(''tag'', ''a''), (''id'', ''7''), (''tag'', ''b'')]"
    by (simp add: sample_url_def)
  from args_last_value_wins [OF q1, of "[]" "''tag''"]
    args_last_value_wins [OF q1, of "[]" "''size''"]
  show ?thesis
    using q1 a by (simp add: sp values_of_def)
qed

text \<open>
  C5. For every header of a POST /post request, as Node.js delivers the headers
  (\<open>node_headers\<close>): \<^verbatim>\<open>headers\<close> maps the name with its first character upper-cased, and
  nothing else changed, to the list of the header's values in their order, a single value
  as a one-element list; and every key of \<^verbatim>\<open>headers\<close> comes from a header in this way.
\<close>

theorem headers_capitalized_with_value_lists:
  assumes "POST_post P req u"
    and "node_headers (req_headers req)"
    and "(name, Some val) \<in> set (req_headers req)"
  shows "handle P (router_routes P) req res =
           Inr (res @ [WriteHead 200 [(''Content-Type'', ''application/json'')],
                       End (Stringify_mirror (sent_mirror P u req))]) \<and>
         get_own (headers (sent_mirror P u req)) (capitalize name) = Some (to_array val) \<and>
         take 1 (capitalize name) = map toUpperCase_char (take 1 name) \<and>
         drop 1 (capitalize name) = drop 1 name \<and>
         (\<forall>K vs. get_own (headers (sent_mirror P u req)) K = Some vs \<longrightarrow>
            (\<exists>name' val'. (name', Some val') \<in> set (req_headers req) \<and>
               K = capitalize name' \<and> vs = to_array val'))"
proof -
  have h: "headers (sent_mirror P u req) = fold parseHeaders_step (req_headers req) []"
    by (simp add: sent_mirror_def mirror_response_def json_and_form_def parseHeaders_def)
  from node_headers_parts [OF assms(2)] assms(3)
  have d: "distinct (map fst (req_headers req))"
    and l: "list_all lower_cased (map fst (req_headers req))"
    and p: "name \<noteq> ''__proto__''"
    by (auto simp: image_iff)
  have 1: "get_own (headers (sent_mirror P u req)) (capitalize name) = Some (to_array val)"
    unfolding h using d l assms(3) p by (rule fold_parseHeaders_step_get)
  have 2: "take 1 (capitalize name) = map toUpperCase_char (take 1 name)"
    "drop 1 (capitalize name) = drop 1 name"
    by (cases name; simp add: capitalize_def)+
  have 3: "\<exists>name' val'. (name', Some val') \<in> set (req_headers req) \<and>
      K = capitalize name' \<and> vs = to_array val'"
    if "get_own (headers (sent_mirror P u req)) K = Some vs" for K vs
    using fold_parseHeaders_step_origin [of "req_headers req" "[]" K vs] that
    by (simp add: h get_own_Nil)
  show ?thesis
    using handle_POST_post [OF assms(1), of res] 1 2 3 by blast
qed

text \<open>
  \<^verbatim>\<open>content-type\<close> becomes \<^verbatim>\<open>Content-type\<close> with a one-element list, and a
  two-valued \<^verbatim>\<open>set-cookie\<close> keeps both values in order.
\<close>

theorem headers_capitalized_with_value_lists_witness:
  "POST_post sample_platform
     (sample_request ''POST'' ''/post'' ''text/plain'' [] \<lparr>req_headers :=
        [(''host'', Some (Str ''localhost:3000'')), (''content-type'', Some (Str ''text/plain'')),
         (''set-cookie'', Some (Arr [''a=1'', ''b=2''])), (''x-gone'', None)]\<rparr>)
     (sample_url ''/post'' [] ''/post'') \<and>
   node_headers
     [(''host'', Some (Str ''localhost:3000'')), (''content-type'', Some (Str ''text/plain'')),
      (''set-cookie'', Some (Arr [''a=1'', ''b=2''])), (''x-gone'', None)] \<and>
   capitalize ''content-type'' = ''Content-type'' \<and>
   get_own (headers (sent_mirror sample_platform (sample_url ''/post'' [] ''/post'')
     (sample_request ''POST'' ''/post'' ''text/plain'' [] \<lparr>req_headers :=
        [(''host'', Some (Str ''localhost:3000'')), (''content-type'', Some (Str ''text/plain'')),
         (''set-cookie'', Some (Arr [''a=1'', ''b=2''])), (''x-gone'', None)]\<rparr>)))
     ''Content-type'' = Some [''text/plain''] \<and>
   get_own (headers (sent_mirror sample_platform (sample_url ''/post'' [] ''/post'')
     (sample_request ''POST'' ''/post'' ''text/plain'' [] \<lparr>req_headers :=
        [(''host'', Some (Str ''localhost:3000'')), (''content-type'', Some (Str ''text/plain'')),
         (''set-cookie'', Some (Arr [''a=1'', ''b=2''])), (''x-gone'', None)]\<rparr>)))
     ''Set-cookie'' = Some [''a=1'', ''b=2'']"
proof -
  let ?u = "sample_url ''/post'' [] ''/post''"
  let ?hs = "[(''host'', Some (Str ''localhost:3000'')),
    (''content-type'', Some (Str ''text/plain'')),
    (''set-cookie'', Some (Arr [''a=1'', ''b=2''])), (''x-gone'', None)]"
  let ?r = "sample_request ''POST'' ''/post'' ''text/plain'' [] \<lparr>req_headers := ?hs\<rparr>"
  have r1: "POST_post sample_platform ?r ?u" by (simp add: sample_defs)
  have hs: "req_headers ?r = ?hs" by simp
  have r2: "node_headers (req_headers ?r)"
    by (simp add: hs node_headers_def lower_cased_def is_upper_def)
  have r3: "(''content-type'', Some (Str ''text/plain'')) \<in> set (req_headers ?r)"
    "(''set-cookie'', Some (Arr [''a=1'', ''b=2''])) \<in> set (req_headers ?r)"
    by (simp_all add: hs)
  have c: "capitalize ''content-type'' = ''Content-type''"
    "capitalize ''set-cookie'' = ''Set-cookie''"
    by (simp_all add: capitalize_def toUpperCase_char_def char_of_eq_iff)
  note t1 = headers_capitalized_with_value_lists [OF r1 r2 r3(1), of "[]"]
  note t2 = headers_capitalized_with_value_lists [OF r1 r2 r3(2), of "[]"]
  from t1 [THEN conjunct2, THEN conjunct1] t2 [THEN conjunct2, THEN conjunct1]
  show ?thesis
    using r1 r2 by (simp add: c hs)
qed




text \<open>
  C7. \<open>get\<close> and \<open>post\<close> append an entry to the list of routes. When the entry at
  index \<open>i\<close> is the first one with the request's method and path, \<open>handle\<close> calls the
  handler of that entry, with the body for \<^verbatim>\<open>POST\<close> and without one otherwise, whatever is
  registered after it (\<open>later\<close>), duplicates of the same method and path included.
\<close>

theorem first_registered_route_wins:
  assumes "URL_new P (url_or_empty req) (base_url req) = Some u"
    and "i < length routes"
    and "Some (route_method (routes ! i)) = req_method req"
    and "route_path (routes ! i) = pathname u"
    and "\<forall>j<i. \<not> (Some (route_method (routes ! j)) = req_method req \<and>
                   route_path (routes ! j) = pathname u)"
  shows "get path h routes =
           routes @ [\<lparr>route_method = ''GET'', route_path = path, handler = h\<rparr>] \<and>
         post path h routes =
           routes @ [\<lparr>route_method = ''POST'', route_path = path, handler = h\<rparr>] \<and>
         find_route (routes @ later) (req_method req) (pathname u) = Some (routes ! i) \<and>
         handle P (routes @ later) req res =
           handler (routes ! i) req res
             (if req_method req = Some ''POST'' then Some (body_of req) else None)"
proof -
  have "i < length (routes @ later)" using assms(2) by simp
  moreover have "(routes @ later) ! j = routes ! j" if "j \<le> i" for j
    using that assms(2) by (simp add: nth_append)
  ultimately have "find_route (routes @ later) (req_method req) (pathname u) =
      Some ((routes @ later) ! i)"
    using assms(3,4,5) by (intro find_route_first) auto
  then have f: "find_route (routes @ later) (req_method req) (pathname u) = Some (routes ! i)"
    using assms(2) by (simp add: nth_append)
  with assms(1) show ?thesis by (simp add: handle_def handlePost_def get_def post_def)
qed

text \<open>
  Two routes registered for \<^verbatim>\<open>GET /nonexistent\<close>, and two for \<^verbatim>\<open>POST /post/\<close> whose
  handlers answer with the body: each request gets the reply of the first.
\<close>

theorem first_registered_route_wins_witness:
  "URL_new sample_platform
     (url_or_empty (sample_request ''GET'' ''/nonexistent'' [] []))
     (base_url (sample_request ''GET'' ''/nonexistent'' [] [])) =
     Some (sample_url ''/nonexistent'' [] ''/nonexistent'') \<and>
   get ''/nonexistent'' (\<lambda>req res body. Inr (res @ [End (Text ''second'')]))
     (get ''/nonexistent'' rootHandler []) =
     [\<lparr>route_method = ''GET'', route_path = ''/nonexistent'', handler = rootHandler\<rparr>,
      \<lparr>route_method = ''GET'', route_path = ''/nonexistent'',
       handler = (\<lambda>req res body. Inr (res @ [End (Text ''second'')]))\<rparr>] \<and>
   handle sample_platform
     (get ''/nonexistent'' (\<lambda>req res body. Inr (res @ [End (Text ''second'')]))
       (get ''/nonexistent'' rootHandler []))
     (sample_request ''GET'' ''/nonexistent'' [] []) [] =
     Inr [WriteHead 200 [(''Content-Type'', ''text/html'')], End (Text ''Hello World!'')] \<and>
   URL_new sample_platform
     (url_or_empty (sample_request ''POST'' ''/post/'' [] [''a='', ''1'']))
     (base_url (sample_request ''POST'' ''/post/'' [] [''a='', ''1''])) =
     Some (sample_url ''/post/'' [] ''/post/'') \<and>
   handle sample_platform
     (post ''/post/''
       (\<lambda>req res body. Inr (res @ [End (Text (''second '' @ (case body of None \<Rightarrow> [] | Some b \<Rightarrow> b)))]))
       (post ''/post/''
         (\<lambda>req res body. Inr (res @ [End (Text (''first '' @ (case body of None \<Rightarrow> [] | Some b \<Rightarrow> b)))]))
         []))
     (sample_request ''POST'' ''/post/'' [] [''a='', ''1'']) [] =
     Inr [End (Text ''first a=1'')]"
proof -
  let ?a = "sample_request ''GET'' ''/nonexistent'' [] []"
  let ?u = "sample_url ''/nonexistent'' [] ''/nonexistent''"
  let ?h2 = "\<lambda>(req :: request) (res :: res_call list) (body :: string option).
    (Inr (res @ [End (Text ''second'')]) :: error + res_call list)"
  let ?first = "get ''/nonexistent'' rootHandler []"
  let ?later = "[\<lparr>route_method = ''GET'', route_path = ''/nonexistent'', handler = ?h2\<rparr>]"
  have ua: "URL_new sample_platform (url_or_empty ?a) (base_url ?a) = Some ?u"
    by (simp add: sample_defs)
  have i: "0 < length ?first" by (simp add: get_def)
  have m: "Some (route_method (?first ! 0)) = req_method ?a"
    by (simp add: get_def sample_request_def)
  have p: "route_path (?first ! 0) = pathname ?u"
    by (simp add: get_def sample_url_def)
  have n: "\<forall>j<0. \<not> (Some (route_method (?first ! j)) = req_method ?a \<and>
      route_path (?first ! j) = pathname ?u)"
    by simp
  have g: "get ''/nonexistent'' ?h2 ?first = ?first @ ?later"
    by (simp add: get_def)
  let ?b = "sample_request ''POST'' ''/post/'' [] [''a='', ''1'']"
  let ?v = "sample_url ''/post/'' [] ''/post/''"
  let ?k1 = "\<lambda>(req :: request) (res :: res_call list) (body :: string option).
    (Inr (res @ [End (Text (''first '' @ (case body of None \<Rightarrow> [] | Some b \<Rightarrow> b)))])
      :: error + res_call list)"
  let ?k2 = "\<lambda>(req :: request) (res :: res_call list) (body :: string option).
    (Inr (res @ [End (Text (''second '' @ (case body of None \<Rightarrow> [] | Some b \<Rightarrow> b)))])
      :: error + res_call list)"
  let ?pfirst = "post ''/post/'' ?k1 []"
  let ?plater = "[\<lparr>route_method = ''POST'', route_path = ''/post/'', handler = ?k2\<rparr>]"
  have ub: "URL_new sample_platform (url_or_empty ?b) (base_url ?b) = Some ?v"
    by (simp add: sample_defs)
  have pi: "0 < length ?pfirst" by (simp add: post_def)
  have pm: "Some (route_method (?pfirst ! 0)) = req_method ?b"
    by (simp add: post_def sample_request_def)
  have pp: "route_path (?pfirst ! 0) = pathname ?v"
    by (simp add: post_def sample_url_def)
  have pn: "\<forall>j<0. \<not> (Some (route_method (?pfirst ! j)) = req_method ?b \<and>
      route_path (?pfirst ! j) = pathname ?v)"
    by simp
  have pg: "post ''/post/'' ?k2 ?pfirst = ?pfirst @ ?plater"
    by (simp add: post_def)
  note t1 = first_registered_route_wins [OF ua i m p n, of "''/nonexistent''" ?h2 ?later "[]"]
  note t2 = first_registered_route_wins [OF ub pi pm pp pn, of "''/post/''" ?k2 ?plater "[]"]
  have r1: "handle sample_platform (get ''/nonexistent'' ?h2 ?first) ?a [] =
      Inr [WriteHead 200 [(''Content-Type'', ''text/html'')], End (Text ''Hello World!'')]"
    using t1 [THEN conjunct2, THEN conjunct2, THEN conjunct2]
    by (simp add: g) (simp add: get_def rootHandler_def sample_request_def)
  have r2: "handle sample_platform (post ''/post/'' ?k2 ?pfirst) ?b [] =
      Inr [End (Text ''first a=1'')]"
    using t2 [THEN conjunct2, THEN conjunct2, THEN conjunct2]
    by (simp add: pg) (simp add: post_def sample_request_def body_of_def)
  have r0: "get ''/nonexistent'' ?h2 ?first =
      [\<lparr>route_method = ''GET'', route_path = ''/nonexistent'', handler = rootHandler\<rparr>,
       \<lparr>route_method = ''GET'', route_path = ''/nonexistent'', handler = ?h2\<rparr>]"
    by (simp add: get_def)
  from ua r0 r1 ub r2 show ?thesis by blast
qed

text \<open>
  C8 asks that the step throw, before any call on the page, for every target \<^verbatim>\<open>env:NAME\<close>
  whose variable is unset. The step does so when \<^verbatim>\<open>process.env[NAME]\<close> is \<^verbatim>\<open>undefined\<close>
  (\<open>navigate_unset_variable_raises\<close> above). For the name \<^verbatim>\<open>toString\<close>, with no variable
  of that name set, \<^verbatim>\<open>process.env[NAME]\<close> is the inherited function, which is truthy: the
  step throws no error of its own and hands the function to \<^verbatim>\<open>page.goto\<close>.
\<close>

theorem navigate_inherited_name_reaches_goto:
  "navigateToUrl
     \<lparr>variables = (\<lambda>name. None), inherits = (\<lambda>name. name = ''toString'')\<rparr>
     (Some p) ''env:toString'' =
     (case goto_rejects p (Inherited ''toString'') of
        Some e \<Rightarrow> ([Goto (Inherited ''toString'')], Some e)
      | None \<Rightarrow>
          ([Goto (Inherited ''toString''), WaitForLoadState ''networkidle''],
           waitForLoadState_rejects p ''networkidle''))"
  by (simp add: navigateToUrl_def env_get_def)

text \<open>
  C9. For every POST /post request whose content type includes both
  \<^verbatim>\<open>application/json\<close> and \<^verbatim>\<open>application/x-www-form-urlencoded\<close>, only the JSON branch
  runs: \<^verbatim>\<open>json\<close> is the result of the parse attempt and \<^verbatim>\<open>form\<close> stays empty.
\<close>

theorem json_checked_before_form:
  assumes "POST_post P req u"
    and "value_includes (contentType req) ''application/json''"
    and "value_includes (contentType req) ''application/x-www-form-urlencoded''"
  shows "handle P (router_routes P) req res =
           Inr (res @ [WriteHead 200 [(''Content-Type'', ''application/json'')],
                       End (Stringify_mirror (sent_mirror P u req))]) \<and>
         form (sent_mirror P u req) = [] \<and>
         json (sent_mirror P u req) =
           (case JSON_parse P (body_of req) of Some v \<Rightarrow> v | None \<Rightarrow> JNull)"
  using assms(2) handle_POST_post [OF assms(1), of res]
  by (simp add: sent_mirror_def mirror_response_def json_and_form_def try_JSON_parse_def)

text \<open>
  A body that parses as JSON and that \<open>parseForm\<close> would read as one key: \<^verbatim>\<open>form\<close> is
  empty all the same.
\<close>

theorem json_checked_before_form_witness:
  "POST_post sample_platform
     (sample_request ''POST'' ''/post''
       ''application/x-www-form-urlencoded, application/json'' [''[true, null]''])
     (sample_url ''/post'' [] ''/post'') \<and>
   value_includes
     (contentType (sample_request ''POST'' ''/post''
       ''application/x-www-form-urlencoded, application/json'' [''[true, null]'']))
     ''application/json'' \<and>
   value_includes
     (contentType (sample_request ''POST'' ''/post''
       ''application/x-www-form-urlencoded, application/json'' [''[true, null]'']))
     ''application/x-www-form-urlencoded'' \<and>
   form (sent_mirror sample_platform (sample_url ''/post'' [] ''/post'')
     (sample_request ''POST'' ''/post''
       ''application/x-www-form-urlencoded, application/json'' [''[true, null]''])) = [] \<and>
   json (sent_mirror sample_platform (sample_url ''/post'' [] ''/post'')
     (sample_request ''POST'' ''/post''
       ''application/x-www-form-urlencoded, application/json'' [''[true, null]''])) =
     JArray [JBool True, JNull] \<and>
   parseForm sample_platform ''[true, null]'' = [(''[true, null]'', [[]])]"
proof -
  let ?u = "sample_url ''/post'' [] ''/post''"
  let ?m = "sample_request ''POST'' ''/post''
    ''application/x-www-form-urlencoded, application/json'' [''[true, null]'']"
  have m1: "POST_post sample_platform ?m ?u" by (simp add: sample_defs)
  have m2: "value_includes (contentType ?m) ''application/json''"
    by (simp add: sample_defs)
  have m3: "value_includes (contentType ?m) ''application/x-www-form-urlencoded''"
    by (simp add: sample_defs)
  have j: "JSON_parse sample_platform (body_of ?m) = Some (JArray [JBool True, JNull])"
    by (simp add: sample_defs)
  have pf: "parseForm sample_platform ''[true, null]'' = [(''[true, null]'', [[]])]"
    by (simp add: parseForm_def querystring_parse_def read_pairs_def qs_pairs_def split_pair_def
        qs_decode_def maxKeys_def get_own_def assign_def split_on_def)
  from json_checked_before_form [OF m1 m2 m3, of "[]"]
  show ?thesis
    using m1 m2 m3 pf by (simp add: j)
qed

text \<open>
  C10. For every GET /forms/post request: when reading the file fails the reply is 404
  with the body \<^verbatim>\<open>File not found\<close>, which is not the router's reply for an unmatched
  route; when it succeeds the reply is 200 with \<^verbatim>\<open>Content-Type: text/html\<close> and the bytes
  of the file.
\<close>

theorem forms_post_file_or_404:
  assumes "URL_new P (url_or_empty req) (base_url req) = Some u"
    and "pathname u = ''/forms/post''"
    and "req_method req = Some ''GET''"
  shows "handle P (router_routes P) req res =
           (case readFile P ''server/public/form.html'' of
              None \<Rightarrow>
                Inr (res @ [SetHeader ''Content-Type'' ''text/html'',
                            WriteHead 404 [(''Content-Type'', ''text/plain'')],
                            End (Text ''File not found'')])
            | Some file \<Rightarrow>
                Inr (res @ [SetHeader ''Content-Type'' ''text/html'',
                            WriteHead 200 [(''Content-Type'', ''text/html'')],
                            End (FileData file)])) \<and>
         handle P (router_routes P) req res \<noteq>
           Inr (res @ [WriteHead 404 [(''Content-Type'', ''text/plain'')],
                       End (Text ''Not Found'')])"
  using assms
  by (simp add: handle_def router_routes_def get_def post_def find_route_def
      formsPostHandler_def path_join_def split: option.splits)

text \<open>
  The file present, and the file unreadable.
\<close>

theorem forms_post_file_or_404_witness:
  "URL_new sample_platform
     (url_or_empty (sample_request ''GET'' ''/forms/post'' [] []))
     (base_url (sample_request ''GET'' ''/forms/post'' [] [])) =
     Some (sample_url ''/forms/post'' [] ''/forms/post'') \<and>
   handle sample_platform (router_routes sample_platform)
     (sample_request ''GET'' ''/forms/post'' [] []) [] =
     Inr [SetHeader ''Content-Type'' ''text/html'',
          WriteHead 200 [(''Content-Type'', ''text/html'')],
          End (FileData ''<form></form>'')] \<and>
   URL_new (sample_platform\<lparr>readFile := (\<lambda>path. None)\<rparr>)
     (url_or_empty (sample_request ''GET'' ''/forms/post'' [] []))
     (base_url (sample_request ''GET'' ''/forms/post'' [] [])) =
     Some (sample_url ''/forms/post'' [] ''/forms/post'') \<and>
   handle (sample_platform\<lparr>readFile := (\<lambda>path. None)\<rparr>)
     (router_routes (sample_platform\<lparr>readFile := (\<lambda>path. None)\<rparr>))
     (sample_request ''GET'' ''/forms/post'' [] []) [] =
     Inr [SetHeader ''Content-Type'' ''text/html'',
          WriteHead 404 [(''Content-Type'', ''text/plain'')],
          End (Text ''File not found'')]"
proof -
  let ?a = "sample_request ''GET'' ''/forms/post'' [] []"
  let ?u = "sample_url ''/forms/post'' [] ''/forms/post''"
  let ?Q = "sample_platform\<lparr>readFile := (\<lambda>path. None)\<rparr>"
  have u1: "URL_new sample_platform (url_or_empty ?a) (base_url ?a) = Some ?u"
    by (simp add: sample_defs)
  have u2: "URL_new ?Q (url_or_empty ?a) (base_url ?a) = Some ?u"
    by (simp add: sample_defs)
  have p: "pathname ?u = ''/forms/post''" by (simp add: sample_url_def)
  have m: "req_method ?a = Some ''GET''" by (simp add: sample_request_def)
  have f1: "readFile sample_platform ''server/public/form.html'' = Some ''<form></form>''"
    by (simp add: sample_platform_def)
  have f2: "readFile ?Q ''server/public/form.html'' = None"
    by simp
  from forms_post_file_or_404 [OF u1 p m, of "[]"] forms_post_file_or_404 [OF u2 p m, of "[]"]
  show ?thesis
    using u1 u2 by (simp add: f1 f2)
qed

end
